theory Spec2Isabelle
  imports Complex_Main "HOL-Library.Char_ord" "HOL-Library.List_Lexorder" "HOL-Library.Multiset"
begin

section \<open>Strings\<close>

text \<open>
  A Python \<open>str\<close> is a sequence of Unicode code points. It is modelled as a \<open>string\<close>
  whose characters are the code points U+0000 to U+00FF (Latin-1), so \<open>length\<close> counts what
  Python's \<open>len\<close> counts. The Spanish texts of the program need four characters beyond
  ASCII; they are written by code point. SQLite compares TEXT values by their UTF-8 bytes,
  which orders strings as the lexicographic order on code points does.
\<close>

definition newline :: char where
  "newline = CHR 0x0A"

definition o_acute :: char where
  "o_acute = CHR 0xF3"

definition n_tilde :: char where
  "n_tilde = CHR 0xF1"

definition code_point :: "char \<Rightarrow> nat" where
  "code_point c = of_char c"

text \<open>Adding 0x20 to a code point whose bit 5 is clear sets that bit.\<close>

fun add_0x20 :: "char \<Rightarrow> char" where
  "add_0x20 (Char b0 b1 b2 b3 b4 b5 b6 b7) = Char b0 b1 b2 b3 b4 True b6 b7"

text \<open>
  \<open>str.lower()\<close> below U+0100: the letters A to Z, U+00C0 to U+00D6 and U+00D8 to U+00DE
  move up by 0x20, every other code point stays.
\<close>

definition lower_char :: "char \<Rightarrow> char" where
  "lower_char c =
     (let n = code_point c
      in if (65 \<le> n \<and> n \<le> 90) \<or> (192 \<le> n \<and> n \<le> 214) \<or> (216 \<le> n \<and> n \<le> 222)
         then add_0x20 c else c)"

definition lower :: "string \<Rightarrow> string" where
  "lower s = map lower_char s"

text \<open>\<open>sep.join(parts)\<close>\<close>

fun join :: "string \<Rightarrow> string list \<Rightarrow> string" where
  "join sep [] = []"
| "join sep [x] = x"
| "join sep (x # y # ys) = x @ sep @ join sep (y # ys)"

text \<open>\<open>s.startswith(p)\<close>, used for the literal parts of a regular expression.\<close>

fun startswith :: "string \<Rightarrow> string \<Rightarrow> bool" where
  "startswith [] s = True"
| "startswith (p # ps) [] = False"
| "startswith (p # ps) (c # cs) = (p = c \<and> startswith ps cs)"

text \<open>\<open>q in s\<close>: the substring test the specification speaks of.\<close>

fun contains :: "string \<Rightarrow> string \<Rightarrow> bool" where
  "contains q [] = (q = [])"
| "contains q (c # cs) = (startswith q (c # cs) \<or> contains q cs)"

text \<open>Decimal rendering of a row id, as \<open>f"{conv_id}"\<close> gives it.\<close>

definition digit_char :: "nat \<Rightarrow> char" where
  "digit_char d = (''0123456789'' ! d)"

fun str_of_nat :: "nat \<Rightarrow> string" where
  "str_of_nat n = (if n < 10 then [digit_char n] else str_of_nat (n div 10) @ [digit_char (n mod 10)])"

declare str_of_nat.simps [simp del]

section \<open>Dynamically typed values\<close>

text \<open>
  The arguments of a tool call are JSON values, and Python does not enforce the \<open>str\<close>
  annotation of the facade's parameters. Where the code's behaviour depends on the dynamic
  type (the \<open>.lower()\<close> call of the extractor, the truth value of \<open>confirm\<close>) the value is a
  \<open>pyval\<close>.
\<close>

datatype pyval =
    PNone
  | PBool bool
  | PInt int
  | PFloat real
  | PStr string
  | PList "pyval list"
  | PDict "(string \<times> pyval) list"

fun type_name :: "pyval \<Rightarrow> string" where
  "type_name PNone = ''NoneType''"
| "type_name (PBool b) = ''bool''"
| "type_name (PInt i) = ''int''"
| "type_name (PFloat x) = ''float''"
| "type_name (PStr s) = ''str''"
| "type_name (PList xs) = ''list''"
| "type_name (PDict kvs) = ''dict''"

text \<open>Python's truth value, as \<open>if not confirm\<close> tests it.\<close>

fun truthy :: "pyval \<Rightarrow> bool" where
  "truthy PNone = False"
| "truthy (PBool b) = b"
| "truthy (PInt i) = (i \<noteq> 0)"
| "truthy (PFloat x) = (x \<noteq> 0)"
| "truthy (PStr s) = (s \<noteq> [])"
| "truthy (PList xs) = (xs \<noteq> [])"
| "truthy (PDict kvs) = (kvs \<noteq> [])"

text \<open>\<open>AttributeError type attr\<close>: \<open>'type' object has no attribute 'attr'\<close>.\<close>

datatype error = AttributeError string string

text \<open>\<open>args.get(k, default)\<close> on the argument dictionary of a tool call.\<close>

definition dict_get :: "(string \<times> pyval) list \<Rightarrow> string \<Rightarrow> pyval \<Rightarrow> pyval" where
  "dict_get args k dflt = (case map_of args k of None \<Rightarrow> dflt | Some v \<Rightarrow> v)"

section \<open>The store (class MemoryDatabase)\<close>

text \<open>
  One record per relation row. The columns \<open>context_summary\<close> and \<open>created_at\<close> of
  \<open>conversations\<close> are never written or read by the program and are left out. Rows are kept
  in rowid order, the order in which a table scan returns them. \<open>conv_seq\<close> is the
  AUTOINCREMENT counter of \<open>conversations\<close>: the largest id ever given out, which deleting
  rows does not reset. The relation \<open>memory_summaries\<close> is created and cleared but never
  written.
\<close>

record conversation =
  conv_id :: nat
  timestamp :: string
  session_id :: string
  user_message :: string
  assistant_response :: string
  importance_score :: real

record memory_summary =
  summary_id :: nat
  summary_session_id :: string
  summary_text :: string
  start_timestamp :: string
  end_timestamp :: string
  conversation_count :: int

record profile_row =
  pkey :: string
  pvalue :: string
  last_updated :: string

record database =
  conversations :: "conversation list"
  conv_seq :: nat
  memory_summaries :: "memory_summary list"
  user_profile :: "profile_row list"

text \<open>\<open>init_database\<close> on a new file: three empty relations.\<close>

definition init_database :: database where
  "init_database = \<lparr>conversations = [], conv_seq = 0, memory_summaries = [], user_profile = []\<rparr>"

text \<open>
  The dictionaries that the two SELECT queries are turned into: keys \<open>timestamp\<close>, \<open>user\<close>,
  \<open>assistant\<close>, \<open>importance\<close>.
\<close>

record conv_dict =
  d_timestamp :: string
  d_user :: string
  d_assistant :: string
  d_importance :: real

definition row_dict :: "conversation \<Rightarrow> conv_dict" where
  "row_dict r = \<lparr>d_timestamp = timestamp r, d_user = user_message r,
                 d_assistant = assistant_response r, d_importance = importance_score r\<rparr>"

text \<open>
  \<open>store_conversation\<close>: \<open>now\<close> is the value of \<open>datetime.now().isoformat()\<close> read by the
  call. Returns \<open>cursor.lastrowid\<close> and the new store.
\<close>

definition db_store_conversation ::
  "string \<Rightarrow> string \<Rightarrow> string \<Rightarrow> string \<Rightarrow> real \<Rightarrow> database \<Rightarrow> nat \<times> database" where
  "db_store_conversation now user_msg assistant_msg session importance d =
     (let new_id = Suc (conv_seq d);
          row = \<lparr>conv_id = new_id, timestamp = now, session_id = session,
                 user_message = user_msg, assistant_response = assistant_msg,
                 importance_score = importance\<rparr>
      in (new_id, d\<lparr>conversations := conversations d @ [row], conv_seq := new_id\<rparr>))"

text \<open>
  ORDER BY: a stable insertion sort under the given "comes first" relation. SQL leaves the
  order of rows that tie on every sort key open; the model keeps them in rowid order.
\<close>

fun place_row :: "('a \<Rightarrow> 'a \<Rightarrow> bool) \<Rightarrow> 'a \<Rightarrow> 'a list \<Rightarrow> 'a list" where
  "place_row first x [] = [x]"
| "place_row first x (y # ys) = (if first x y then x # y # ys else y # place_row first x ys)"

definition order_by :: "('a \<Rightarrow> 'a \<Rightarrow> bool) \<Rightarrow> 'a list \<Rightarrow> 'a list" where
  "order_by first rows = foldr (place_row first) rows []"

text \<open>LIMIT: a negative limit means no limit in SQLite.\<close>

definition sql_limit :: "int \<Rightarrow> 'a list \<Rightarrow> 'a list" where
  "sql_limit n rows = (if n < 0 then rows else take (nat n) rows)"

text \<open>\<open>ORDER BY timestamp DESC\<close>\<close>

definition newer_first :: "conversation \<Rightarrow> conversation \<Rightarrow> bool" where
  "newer_first a b = (timestamp b \<le> timestamp a)"

definition get_recent_conversations :: "int \<Rightarrow> string \<Rightarrow> database \<Rightarrow> conv_dict list" where
  "get_recent_conversations limit session d =
     map row_dict
       (sql_limit limit
         (order_by newer_first (filter (\<lambda>r. session_id r = session) (conversations d))))"

section \<open>The LIKE operator\<close>

text \<open>
  SQLite's built-in LIKE, without an ESCAPE clause: \<open>%\<close> in the pattern matches any run of
  characters, \<open>_\<close> matches any one character, and any other character matches itself, two
  ASCII characters also when they differ only in case (SQLite folds A to Z only). Both
  operands are read as C strings, that is up to their first U+0000.
\<close>

definition fold_ascii :: "char \<Rightarrow> char" where
  "fold_ascii c = (if 65 \<le> code_point c \<and> code_point c \<le> 90 then add_0x20 c else c)"

definition like_char :: "char \<Rightarrow> char \<Rightarrow> bool" where
  "like_char p c =
     (p = c \<or> (code_point p < 128 \<and> code_point c < 128 \<and> fold_ascii p = fold_ascii c))"

fun pattern_compare :: "string \<Rightarrow> string \<Rightarrow> bool" where
  "pattern_compare [] s = (s = [])"
| "pattern_compare (p # ps) s =
     (if p = CHR ''%''
      then pattern_compare ps s \<or>
           (case s of [] \<Rightarrow> False | c # cs \<Rightarrow> pattern_compare (p # ps) cs)
      else (case s of [] \<Rightarrow> False
            | c # cs \<Rightarrow> (p = CHR ''_'' \<or> like_char p c) \<and> pattern_compare ps cs))"

definition c_string :: "string \<Rightarrow> string" where
  "c_string s = takeWhile (\<lambda>c. c \<noteq> CHR 0x00) s"

text \<open>\<open>text LIKE pat\<close>\<close>

definition sql_like :: "string \<Rightarrow> string \<Rightarrow> bool" where
  "sql_like txt pat = pattern_compare (c_string pat) (c_string txt)"

text \<open>\<open>ORDER BY importance_score DESC, timestamp DESC\<close>\<close>

definition relevant_first :: "conversation \<Rightarrow> conversation \<Rightarrow> bool" where
  "relevant_first a b =
     (importance_score b < importance_score a \<or>
      (importance_score b = importance_score a \<and> timestamp b \<le> timestamp a))"

text \<open>The WHERE clause of the search, with both parameters bound to \<open>f'%{query}%'\<close>.\<close>

definition search_where :: "string \<Rightarrow> conversation \<Rightarrow> bool" where
  "search_where query r =
     (sql_like (user_message r) (CHR ''%'' # query @ ''%'') \<or>
      sql_like (assistant_response r) (CHR ''%'' # query @ ''%''))"

definition search_conversations :: "string \<Rightarrow> int \<Rightarrow> database \<Rightarrow> conv_dict list" where
  "search_conversations query limit d =
     map row_dict
       (sql_limit limit (order_by relevant_first (filter (search_where query) (conversations d))))"

text \<open>
  \<open>INSERT OR REPLACE\<close> on the primary key: the row that holds the key, if any, is deleted and
  the new row is inserted with a fresh rowid, so at the end of the scan order.
\<close>

definition update_user_profile :: "string \<Rightarrow> string \<Rightarrow> string \<Rightarrow> database \<Rightarrow> database" where
  "update_user_profile now k v d =
     d\<lparr>user_profile :=
         filter (\<lambda>r. pkey r \<noteq> k) (user_profile d) @ [\<lparr>pkey = k, pvalue = v, last_updated = now\<rparr>]\<rparr>"

text \<open>
  \<open>dict(pairs)\<close>: a Python dictionary as an association list in insertion order; a key that
  comes again keeps its place and takes the later value.
\<close>

fun dict_set :: "'k \<Rightarrow> 'v \<Rightarrow> ('k \<times> 'v) list \<Rightarrow> ('k \<times> 'v) list" where
  "dict_set k v [] = [(k, v)]"
| "dict_set k v ((k', v') # kvs) = (if k' = k then (k, v) # kvs else (k', v') # dict_set k v kvs)"

definition dict_of :: "('k \<times> 'v) list \<Rightarrow> ('k \<times> 'v) list" where
  "dict_of pairs = foldl (\<lambda>acc (k, v). dict_set k v acc) [] pairs"

definition get_user_profile :: "database \<Rightarrow> (string \<times> string) list" where
  "get_user_profile d = dict_of (map (\<lambda>r. (pkey r, pvalue r)) (user_profile d))"

text \<open>\<open>clear_memory\<close>: two DELETE statements; \<open>user_profile\<close> is not among them.\<close>

definition db_clear_memory :: "database \<Rightarrow> database" where
  "db_clear_memory d = d\<lparr>conversations := [], memory_summaries := []\<rparr>"

section \<open>Regular expressions of the profile extractor\<close>

text \<open>
  Every pattern of the extractor has the shape: a literal, one group \<open>(\w+)\<close> or \<open>(\d+)\<close>,
  a literal (empty in all patterns but one). For a \<open>str\<close> pattern \<open>\w\<close> is a code point that
  is alphanumeric in Unicode or the underscore, and \<open>\d\<close> is a Unicode decimal digit; below
  U+0100 these are the ranges listed here.
\<close>

datatype char_class = Word | Digit

definition is_digit :: "char \<Rightarrow> bool" where
  "is_digit c = (48 \<le> code_point c \<and> code_point c \<le> 57)"

definition is_word :: "char \<Rightarrow> bool" where
  "is_word c =
     (let n = code_point c
      in (48 \<le> n \<and> n \<le> 57) \<or> (65 \<le> n \<and> n \<le> 90) \<or> n = 95 \<or> (97 \<le> n \<and> n \<le> 122) \<or>
         n = 170 \<or> n = 178 \<or> n = 179 \<or> n = 181 \<or> n = 185 \<or> n = 186 \<or>
         (188 \<le> n \<and> n \<le> 190) \<or> (192 \<le> n \<and> n \<le> 214) \<or> (216 \<le> n \<and> n \<le> 246) \<or>
         (248 \<le> n \<and> n \<le> 255))"

fun in_class :: "char_class \<Rightarrow> char \<Rightarrow> bool" where
  "in_class Word c = is_word c"
| "in_class Digit c = is_digit c"

type_synonym pattern = "string \<times> char_class \<times> string"

text \<open>
  The greedy \<open>+\<close> with backtracking: the group first takes the whole run of class characters
  (\<open>k\<close> of them) and gives characters back one at a time, down to one, until the literal
  after the group follows.
\<close>

fun backtrack :: "nat \<Rightarrow> string \<Rightarrow> string \<Rightarrow> string option" where
  "backtrack 0 suffix rest = None"
| "backtrack (Suc k) suffix rest =
     (if startswith suffix (drop (Suc k) rest) then Some (take (Suc k) rest)
      else backtrack k suffix rest)"

text \<open>A match that starts at the first character of \<open>s\<close>; the result is \<open>group(1)\<close>.\<close>

fun match_at :: "pattern \<Rightarrow> string \<Rightarrow> string option" where
  "match_at (literal, cls, suffix) s =
     (if startswith literal s
      then (let rest = drop (length literal) s
            in backtrack (length (takeWhile (in_class cls) rest)) suffix rest)
      else None)"

text \<open>\<open>re.search\<close>: the leftmost start position that matches.\<close>

fun re_search :: "pattern \<Rightarrow> string \<Rightarrow> string option" where
  "re_search p [] = match_at p []"
| "re_search p (c # cs) = (case match_at p (c # cs) of Some g \<Rightarrow> Some g | None \<Rightarrow> re_search p cs)"

text \<open>The \<open>patterns\<close> dictionary, in its insertion order.\<close>

definition patterns :: "(string \<times> pattern list) list" where
  "patterns =
     [(''name'', [(''mi nombre es '', Word, []), (''me llamo '', Word, []), (''soy '', Word, [])]),
      (''age'', [(''tengo '', Digit, '' a'' @ [n_tilde] @ ''os''), (''mi edad es '', Digit, [])]),
      (''profession'', [(''soy '', Word, []), (''trabajo como '', Word, []), (''estudio '', Word, [])]),
      (''location'', [(''vivo en '', Word, []), (''soy de '', Word, [])])]"

section \<open>The facade (class MemoryManager)\<close>

text \<open>
  \<open>current_session\<close> is the token \<open>strftime("%Y%m%d_%H%M%S")\<close> of the start time.
  The wall clock is an input: \<open>clk i\<close> is what the \<open>i\<close>-th call of
  \<open>datetime.now().isoformat()\<close> returns, and \<open>clock_reads\<close> counts the calls made so far.
\<close>

type_synonym clock = "nat \<Rightarrow> string"

record manager =
  db :: database
  current_session :: string
  clock_reads :: nat

definition new_manager :: "string \<Rightarrow> database \<Rightarrow> manager" where
  "new_manager token d = \<lparr>db = d, current_session = token, clock_reads = 0\<rparr>"

text \<open>\<open>self.db.update_user_profile(key, value)\<close>, with its reading of the clock.\<close>

definition call_update_user_profile :: "clock \<Rightarrow> string \<Rightarrow> string \<Rightarrow> manager \<Rightarrow> manager" where
  "call_update_user_profile clk k v m =
     m\<lparr>db := update_user_profile (clk (clock_reads m)) k v (db m),
       clock_reads := Suc (clock_reads m)\<rparr>"

text \<open>\<open>self.db.store_conversation(...)\<close>, with its reading of the clock.\<close>

definition call_store_conversation ::
  "clock \<Rightarrow> string \<Rightarrow> string \<Rightarrow> string \<Rightarrow> real \<Rightarrow> manager \<Rightarrow> nat \<times> manager" where
  "call_store_conversation clk user_msg assistant_msg session importance m =
     (let (new_id, d) =
            db_store_conversation (clk (clock_reads m)) user_msg assistant_msg session importance (db m)
      in (new_id, m\<lparr>db := d, clock_reads := Suc (clock_reads m)\<rparr>))"

text \<open>The inner loop over one type's patterns: the first match is upserted, then \<open>break\<close>.\<close>

fun pattern_loop :: "clock \<Rightarrow> string \<Rightarrow> string \<Rightarrow> pattern list \<Rightarrow> manager \<Rightarrow> manager" where
  "pattern_loop clk info_type msg_lower [] m = m"
| "pattern_loop clk info_type msg_lower (p # ps) m =
     (case re_search p msg_lower of
        Some v \<Rightarrow> call_update_user_profile clk info_type v m
      | None \<Rightarrow> pattern_loop clk info_type msg_lower ps m)"

text \<open>The outer loop over \<open>patterns.items()\<close>.\<close>

fun type_loop :: "clock \<Rightarrow> string \<Rightarrow> (string \<times> pattern list) list \<Rightarrow> manager \<Rightarrow> manager" where
  "type_loop clk msg_lower [] m = m"
| "type_loop clk msg_lower ((info_type, pattern_list) # rest) m =
     type_loop clk msg_lower rest (pattern_loop clk info_type msg_lower pattern_list m)"

text \<open>
  \<open>_extract_profile_info\<close>: its first step is \<open>user_message.lower()\<close>, which raises
  AttributeError on a value that is not a \<open>str\<close>.
\<close>

definition extract_profile_info :: "clock \<Rightarrow> pyval \<Rightarrow> manager \<Rightarrow> error + manager" where
  "extract_profile_info clk user_msg m =
     (case user_msg of
        PStr s \<Rightarrow> Inr (type_loop clk (lower s) patterns m)
      | v \<Rightarrow> Inl (AttributeError (type_name v) ''lower''))"

text \<open>
  \<open>store_conversation\<close>: the extraction is awaited with no \<open>try\<close> around it, so what it
  raises leaves the function before the insert. The last branch is never reached: a value
  that is not a \<open>str\<close> has already made the extraction raise.
\<close>

definition store_conversation ::
  "clock \<Rightarrow> pyval \<Rightarrow> string \<Rightarrow> real \<Rightarrow> manager \<Rightarrow> error + (string \<times> manager)" where
  "store_conversation clk user_msg assistant_msg importance m =
     (case extract_profile_info clk user_msg m of
        Inl e \<Rightarrow> Inl e
      | Inr m1 \<Rightarrow>
          (case user_msg of
             PStr s \<Rightarrow>
               (let (new_id, m2) =
                      call_store_conversation clk s assistant_msg (current_session m1) importance m1
                in Inr (''Stored conversation #'' @ str_of_nat new_id @ '' successfully'', m2))
           | v \<Rightarrow> Inl (AttributeError (type_name v) ''lower'')))"

text \<open>The two lines that render one exchange.\<close>

definition exchange_lines :: "conv_dict \<Rightarrow> string list" where
  "exchange_lines conv = [''Usuario: '' @ d_user conv, ''Asistente: '' @ d_assistant conv]"

text \<open>\<open>xs[-3:]\<close>: the last three elements, or all of them when there are fewer.\<close>

definition last3 :: "'a list \<Rightarrow> 'a list" where
  "last3 xs = drop (length xs - 3) xs"

definition profile_heading :: string where
  "profile_heading = ''Informaci'' @ [o_acute] @ ''n del usuario: ''"

definition recent_heading :: string where
  "recent_heading = ''Conversaci'' @ [o_acute] @ ''n reciente:''"

definition relevant_heading :: string where
  "relevant_heading = ''Conversaciones relevantes anteriores:''"

definition instruction_suffix :: "string \<Rightarrow> string" where
  "instruction_suffix current_message =
     [newline, newline] @ ''Usuario actual: '' @ current_message @ [newline, newline] @
     ''Responde al usuario actual teniendo en cuenta toda la informaci'' @ [o_acute] @
     ''n anterior:''"

text \<open>
  \<open>get_context\<close>. The recent turns are fetched with \<open>limit=context_limit\<close> only, so
  the session is the default of \<open>get_recent_conversations\<close>, the literal \<open>"default"\<close>.
\<close>

definition get_context :: "string \<Rightarrow> int \<Rightarrow> manager \<Rightarrow> string \<times> manager" where
  "get_context current_message context_limit m =
     (let recent = get_recent_conversations context_limit ''default'' (db m);
          profile = get_user_profile (db m);
          parts0 = [];
          parts1 = (if profile \<noteq> []
                    then parts0 @ [profile_heading @ join '', '' (map (\<lambda>(k, v). k @ '': '' @ v) profile)]
                    else parts0);
          parts2 = (if recent \<noteq> []
                    then parts1 @ [recent_heading] @ concat (map exchange_lines (rev (last3 recent)))
                    else parts1);
          parts3 = (if length current_message > 10
                    then (let relevant = search_conversations current_message 2 (db m)
                          in if relevant \<noteq> []
                             then parts2 @ [relevant_heading] @ concat (map exchange_lines relevant)
                             else parts2)
                    else parts2);
          context = join [newline] parts3
      in (if context \<noteq> [] then context @ instruction_suffix current_message else current_message, m))"

text \<open>\<open>search_memory\<close>\<close>

definition search_memory :: "string \<Rightarrow> int \<Rightarrow> manager \<Rightarrow> string \<times> manager" where
  "search_memory query limit m =
     (let results = search_conversations query limit (db m)
      in if results = [] then (''No conversations found'', m)
         else (join [newline]
                 (concat (map (\<lambda>conv. [''['' @ d_timestamp conv @ ''] Usuario: '' @ d_user conv,
                                          ''Asistente: '' @ d_assistant conv,
                                          ''---'']) results)), m))"

text \<open>\<open>update_profile\<close>\<close>

definition update_profile :: "clock \<Rightarrow> string \<Rightarrow> string \<Rightarrow> manager \<Rightarrow> string \<times> manager" where
  "update_profile clk k v m =
     (''Updated profile: '' @ k @ '' = '' @ v, call_update_user_profile clk k v m)"

text \<open>
  \<open>json.dumps(profile, indent=2, ensure_ascii=False)\<close> on a dictionary of strings: the
  quote, the backslash and the control characters are escaped, everything else is kept.
\<close>

definition hex_digit :: "nat \<Rightarrow> char" where
  "hex_digit d = (''0123456789abcdef'' ! d)"

definition json_escape :: "char \<Rightarrow> string" where
  "json_escape c =
     (let n = code_point c
      in if n = 34 then [CHR 0x5C, CHR 0x22]
         else if n = 92 then [CHR 0x5C, CHR 0x5C]
         else if n = 8 then [CHR 0x5C, CHR ''b'']
         else if n = 12 then [CHR 0x5C, CHR ''f'']
         else if n = 10 then [CHR 0x5C, CHR ''n'']
         else if n = 13 then [CHR 0x5C, CHR ''r'']
         else if n = 9 then [CHR 0x5C, CHR ''t'']
         else if n < 32 then [CHR 0x5C, CHR ''u'', CHR ''0'', CHR ''0'', hex_digit (n div 16), hex_digit (n mod 16)]
         else [c])"

definition json_string :: "string \<Rightarrow> string" where
  "json_string s = [CHR 0x22] @ concat (map json_escape s) @ [CHR 0x22]"

definition json_dumps :: "(string \<times> string) list \<Rightarrow> string" where
  "json_dumps d =
     (if d = [] then ''{}''
      else ''{'' @ [newline] @
           join ('','' @ [newline]) (map (\<lambda>(k, v). ''  '' @ json_string k @ '': '' @ json_string v) d) @
           [newline] @ ''}'')"

text \<open>\<open>get_profile\<close>\<close>

definition get_profile :: "manager \<Rightarrow> string \<times> manager" where
  "get_profile m =
     (let profile = get_user_profile (db m)
      in if profile = [] then (''No profile information stored'', m)
         else (json_dumps profile, m))"

text \<open>\<open>clear_memory\<close> of the facade: no argument, no confirmation.\<close>

definition clear_memory :: "manager \<Rightarrow> string \<times> manager" where
  "clear_memory m = (''Memory cleared successfully'', m\<lparr>db := db_clear_memory (db m)\<rparr>)"

section \<open>The remote tool surface (class MemoryServer)\<close>

text \<open>
  \<open>MemoryServer._clear_memory\<close>: \<open>args\<close> is the argument dictionary of the tool call, the
  result is the text payload. The server holds the same state as the facade (a store and a
  session token) and issues the two DELETE statements itself.
\<close>

definition server_clear_memory :: "(string \<times> pyval) list \<Rightarrow> manager \<Rightarrow> string \<times> manager" where
  "server_clear_memory args m =
     (let confirm = dict_get args ''confirm'' (PBool False)
      in if \<not> truthy confirm then (''Memory clear cancelled - confirmation required'', m)
         else (''Memory cleared successfully'',
               m\<lparr>db := (db m)\<lparr>conversations := [], memory_summaries := []\<rparr>\<rparr>))"

section \<open>Sample inputs\<close>

text \<open>
  A clock, and a store with turns of two sessions and one profile fact, for the concrete
  instances of the properties below.
\<close>

definition sample_clock :: clock where
  "sample_clock i = ''2024-01-01T10:00:0'' @ str_of_nat i"

definition sample_store :: database where
  "sample_store =
     \<lparr>conversations =
        [\<lparr>conv_id = 1, timestamp = ''2023-12-31T09:00:00'', session_id = ''default'',
          user_message = ''Hola'', assistant_response = ''Buenos dias'', importance_score = 1\<rparr>,
         \<lparr>conv_id = 2, timestamp = ''2023-12-31T09:05:00'', session_id = ''20231231_090000'',
          user_message = ''a'', assistant_response = ''b'', importance_score = 2\<rparr>],
      conv_seq = 2,
      memory_summaries = [],
      user_profile = [\<lparr>pkey = ''name'', pvalue = ''ana'', last_updated = ''2023-12-31T09:00:00''\<rparr>]\<rparr>"

definition sample_manager :: manager where
  "sample_manager = new_manager ''20240101_100000'' sample_store"

section \<open>States the program can be in\<close>

text \<open>
  The states of the facade over time: a start on a new database file, a restart on the file
  a previous process left, and every operation that writes (the three queries return the
  state they are given). Through the tool surface the server performs the same writes.
\<close>

inductive reachable :: "manager \<Rightarrow> bool" where
  start: "reachable (new_manager token init_database)"
| restart: "reachable m \<Longrightarrow> reachable (new_manager token (db m))"
| stored: "reachable m \<Longrightarrow> store_conversation clk user_msg assistant_msg importance m = Inr (reply, m') \<Longrightarrow>
           reachable m'"
| updated: "reachable m \<Longrightarrow> reachable (snd (update_profile clk k v m))"
| cleared: "reachable m \<Longrightarrow> reachable (snd (clear_memory m))"
| remote_cleared: "reachable m \<Longrightarrow> reachable (snd (server_clear_memory args m))"

section \<open>Views used in the properties\<close>

text \<open>The profile rows that hold the key \<open>k\<close>.\<close>

definition key_rows :: "string \<Rightarrow> manager \<Rightarrow> profile_row list" where
  "key_rows k m = filter (\<lambda>r. pkey r = k) (user_profile (db m))"

text \<open>
  The fact types for which at least one pattern matches the text \<open>s\<close>, in the order of the
  \<open>patterns\<close> dictionary.
\<close>

definition hit_types :: "string \<Rightarrow> (string \<times> pattern list) list \<Rightarrow> string list" where
  "hit_types s tps = map fst (filter (\<lambda>(t, ps). \<exists>p \<in> set ps. re_search p s \<noteq> None) tps)"

section \<open>Properties\<close>

subsection \<open>Rendering of small numbers\<close>

lemma str_of_nat_digit: "n < 10 \<Longrightarrow> str_of_nat n = [digit_char n]"
  by (simp add: str_of_nat.simps)

lemma sample_clock_digit: "n < 10 \<Longrightarrow> sample_clock n = ''2024-01-01T10:00:0'' @ [digit_char n]"
  by (simp add: sample_clock_def str_of_nat_digit)

subsection \<open>Sorting and limiting\<close>

lemma order_by_Nil: "order_by f [] = []"
  by (simp add: order_by_def)

lemma set_place_row: "set (place_row f x ys) = insert x (set ys)"
  by (induction ys) auto

lemma set_order_by: "set (order_by f xs) = set xs"
  by (induction xs) (simp_all add: order_by_def set_place_row)

lemma length_place_row: "length (place_row f x ys) = Suc (length ys)"
  by (induction ys) auto

lemma length_order_by: "length (order_by f xs) = length xs"
  by (induction xs) (simp_all add: order_by_def length_place_row)

lemma sql_limit_Nil: "sql_limit n [] = []"
  by (simp add: sql_limit_def)

subsection \<open>Queries on empty relations\<close>

lemma recent_of_no_rows: "conversations d = [] \<Longrightarrow> get_recent_conversations n s d = []"
  by (simp add: get_recent_conversations_def order_by_Nil sql_limit_Nil)

lemma search_of_no_rows: "conversations d = [] \<Longrightarrow> search_conversations q n d = []"
  by (simp add: search_conversations_def order_by_Nil sql_limit_Nil)

lemma profile_of_no_rows: "user_profile d = [] \<Longrightarrow> get_user_profile d = []"
  by (simp add: get_user_profile_def dict_of_def)

subsection \<open>Clearing\<close>

text \<open>
  C4. After the facade's \<open>clear_memory\<close> the conversation and summary relations are empty:
  \<open>get_recent_conversations\<close> and \<open>search_conversations\<close> return the empty list for every
  argument. The \<open>user_profile\<close> relation is the one it was, and so is what \<open>get_profile\<close>
  returns.
\<close>

theorem clear_memory_keeps_profile:
  "(\<forall>limit session. get_recent_conversations limit session (db (snd (clear_memory m))) = []) \<and>
   (\<forall>query limit. search_conversations query limit (db (snd (clear_memory m))) = []) \<and>
   conversations (db (snd (clear_memory m))) = [] \<and>
   memory_summaries (db (snd (clear_memory m))) = [] \<and>
   user_profile (db (snd (clear_memory m))) = user_profile (db m) \<and>
   get_user_profile (db (snd (clear_memory m))) = get_user_profile (db m) \<and>
   fst (get_profile (snd (clear_memory m))) = fst (get_profile m)"
proof -
  let ?d = "db (snd (clear_memory m))"
  have rows: "conversations ?d = []" and sums: "memory_summaries ?d = []"
    and prof: "user_profile ?d = user_profile (db m)"
    by (simp_all add: clear_memory_def db_clear_memory_def)
  have dict: "get_user_profile ?d = get_user_profile (db m)"
    by (simp add: get_user_profile_def prof)
  have "fst (get_profile (snd (clear_memory m))) = fst (get_profile m)"
    by (simp add: get_profile_def dict Let_def)
  with rows sums prof dict show ?thesis
    by (simp add: recent_of_no_rows search_of_no_rows)
qed

theorem clear_memory_keeps_profile_witness:
  "get_recent_conversations 5 ''default'' (db (snd (clear_memory sample_manager))) = [] \<and>
   search_conversations ''a'' 5 (db (snd (clear_memory sample_manager))) = [] \<and>
   conversations (db sample_manager) \<noteq> [] \<and>
   user_profile (db (snd (clear_memory sample_manager))) =
     [\<lparr>pkey = ''name'', pvalue = ''ana'', last_updated = ''2023-12-31T09:00:00''\<rparr>]"
  using clear_memory_keeps_profile [of sample_manager]
  by (simp add: sample_manager_def sample_store_def new_manager_def)

text \<open>
  C9, as the code has it. Through the tool surface \<open>clear_memory\<close> tests the truth value
  that Python gives to \<open>confirm\<close>, whatever its type. With \<open>confirm\<close> absent, false or any
  other value that counts as false it changes none of the three relations and reports the
  cancellation; with \<open>confirm\<close> true, or any other value that counts as true, it deletes the
  conversation and summary rows and keeps the profile. The facade's \<open>clear_memory\<close> deletes
  the same rows and asks for no confirmation.
\<close>

theorem remote_clear_needs_confirm:
  "(map_of args ''confirm'' = None \<or> map_of args ''confirm'' = Some (PBool False) \<longrightarrow>
      server_clear_memory args m = (''Memory clear cancelled - confirmation required'', m)) \<and>
   (map_of args ''confirm'' = Some (PBool True) \<longrightarrow>
      server_clear_memory args m =
        (''Memory cleared successfully'', m\<lparr>db := (db m)\<lparr>conversations := [], memory_summaries := []\<rparr>\<rparr>)) \<and>
   (\<forall>v. map_of args ''confirm'' = Some v \<and> \<not> truthy v \<longrightarrow>
      server_clear_memory args m = (''Memory clear cancelled - confirmation required'', m)) \<and>
   (\<forall>v. map_of args ''confirm'' = Some v \<and> truthy v \<longrightarrow>
      server_clear_memory args m =
        (''Memory cleared successfully'', m\<lparr>db := (db m)\<lparr>conversations := [], memory_summaries := []\<rparr>\<rparr>)) \<and>
   user_profile (db (snd (server_clear_memory args m))) = user_profile (db m) \<and>
   clear_memory m =
     (''Memory cleared successfully'', m\<lparr>db := (db m)\<lparr>conversations := [], memory_summaries := []\<rparr>\<rparr>)"
  by (auto simp add: server_clear_memory_def clear_memory_def db_clear_memory_def dict_get_def Let_def)

theorem remote_clear_needs_confirm_witness:
  "map_of ([]::(string \<times> pyval) list) ''confirm'' = None \<and>
   server_clear_memory [] sample_manager =
     (''Memory clear cancelled - confirmation required'', sample_manager) \<and>
   map_of [(''confirm'', PBool False)] ''confirm'' = Some (PBool False) \<and>
   server_clear_memory [(''confirm'', PBool False)] sample_manager =
     (''Memory clear cancelled - confirmation required'', sample_manager) \<and>
   map_of [(''confirm'', PBool True)] ''confirm'' = Some (PBool True) \<and>
   conversations (db (snd (server_clear_memory [(''confirm'', PBool True)] sample_manager))) = [] \<and>
   map_of [(''confirm'', PInt 0)] ''confirm'' = Some (PInt 0) \<and> \<not> truthy (PInt 0) \<and>
   server_clear_memory [(''confirm'', PInt 0)] sample_manager =
     (''Memory clear cancelled - confirmation required'', sample_manager) \<and>
   map_of [(''confirm'', PInt 1)] ''confirm'' = Some (PInt 1) \<and> truthy (PInt 1) \<and>
   conversations (db (snd (server_clear_memory [(''confirm'', PInt 1)] sample_manager))) = [] \<and>
   conversations (db sample_manager) \<noteq> [] \<and>
   conversations (db (snd (clear_memory sample_manager))) = []"
  using remote_clear_needs_confirm [of "[]" sample_manager]
    remote_clear_needs_confirm [of "[(''confirm'', PBool False)]" sample_manager]
    remote_clear_needs_confirm [of "[(''confirm'', PBool True)]" sample_manager]
    remote_clear_needs_confirm [of "[(''confirm'', PInt 0)]" sample_manager]
    remote_clear_needs_confirm [of "[(''confirm'', PInt 1)]" sample_manager]
  by (simp add: sample_manager_def sample_store_def new_manager_def)

text \<open>
  C9 as stated fails: the string \<open>"false"\<close> is not the boolean true, yet as the value of
  \<open>confirm\<close> it makes the tool delete the conversation rows.
\<close>

theorem remote_clear_counterexample:
  "map_of [(''confirm'', PStr ''false'')] ''confirm'' = Some (PStr ''false'') \<and>
   PStr ''false'' \<noteq> PBool True \<and>
   server_clear_memory [(''confirm'', PStr ''false'')] sample_manager =
     (''Memory cleared successfully'',
      sample_manager\<lparr>db := (db sample_manager)\<lparr>conversations := [], memory_summaries := []\<rparr>\<rparr>) \<and>
   conversations (db sample_manager) \<noteq> [] \<and>
   conversations (db (snd (server_clear_memory [(''confirm'', PStr ''false'')] sample_manager))) = []"
  by (simp add: server_clear_memory_def dict_get_def sample_manager_def sample_store_def
      new_manager_def)

subsection \<open>Queries\<close>

text \<open>
  C10. \<open>get_context\<close>, \<open>search_memory\<close> and \<open>get_profile\<close> return the state they were given:
  none of the three relations changes, for any argument.
\<close>

theorem queries_only_read:
  "snd (get_context current_message context_limit m) = m \<and>
   snd (search_memory query limit m) = m \<and>
   snd (get_profile m) = m"
  by (simp add: get_context_def search_memory_def get_profile_def Let_def)

theorem queries_only_read_witness:
  "conversations (db (snd (get_context ''hola, como estas?'' 5 sample_manager))) =
     conversations sample_store \<and>
   user_profile (db (snd (search_memory ''a'' 5 sample_manager))) = user_profile sample_store \<and>
   memory_summaries (db (snd (get_profile sample_manager))) = memory_summaries sample_store"
  using queries_only_read [of "''hola, como estas?''" 5 sample_manager "''a''" 5]
  by (simp add: sample_manager_def new_manager_def)

text \<open>
  C6. With no conversation rows and no profile rows, \<open>get_context\<close> returns the current
  message itself, whatever the limit: no heading, no instruction suffix.
\<close>

theorem get_context_degenerates:
  "conversations (db m) = [] \<Longrightarrow> user_profile (db m) = [] \<Longrightarrow>
   get_context current_message context_limit m = (current_message, m)"
  by (simp add: get_context_def recent_of_no_rows search_of_no_rows profile_of_no_rows)

theorem get_context_degenerates_witness:
  "conversations (db (new_manager ''20240101_100000'' init_database)) = [] \<and>
   user_profile (db (new_manager ''20240101_100000'' init_database)) = [] \<and>
   get_context ''hi'' 5 (new_manager ''20240101_100000'' init_database) =
     (''hi'', new_manager ''20240101_100000'' init_database)"
  using get_context_degenerates [of "new_manager ''20240101_100000'' init_database" "''hi''" 5]
  by (simp add: new_manager_def init_database_def)

subsection \<open>The profile relation\<close>

lemma map_of_dict_set: "map_of (dict_set k v acc) = (map_of acc)(k \<mapsto> v)"
  by (induction acc) (auto simp: fun_eq_iff)

lemma map_of_dict_fold:
  "map_of (foldl (\<lambda>acc (k, v). dict_set k v acc) acc ps) = map_of acc ++ map_of (rev ps)"
proof (induction ps arbitrary: acc)
  case Nil
  show ?case by simp
next
  case (Cons p ps)
  obtain k v where p: "p = (k, v)" by (cases p)
  show ?case
    by (simp add: Cons.IH p map_of_dict_set map_add_def fun_eq_iff split: option.splits)
qed

lemma map_of_dict_of: "map_of (dict_of ps) = map_of (rev ps)"
  by (simp add: dict_of_def map_of_dict_fold)

lemma upsert_rows_same:
  "filter (\<lambda>r. pkey r = k) (user_profile (update_user_profile now k v d)) =
     [\<lparr>pkey = k, pvalue = v, last_updated = now\<rparr>]"
  by (simp add: update_user_profile_def filter_empty_conv)

lemma upsert_rows_other:
  "k' \<noteq> k \<Longrightarrow>
   filter (\<lambda>r. pkey r = k') (user_profile (update_user_profile now k v d)) =
     filter (\<lambda>r. pkey r = k') (user_profile d)"
  by (auto simp add: update_user_profile_def intro: filter_cong)

lemma upsert_lookup:
  "map_of (get_user_profile (update_user_profile now k v d)) k = Some v"
  by (simp add: get_user_profile_def map_of_dict_of update_user_profile_def rev_map)

lemma upsert_keeps_keys_distinct:
  "distinct (map pkey (user_profile d)) \<Longrightarrow>
   distinct (map pkey (user_profile (update_user_profile now k v d)))"
  by (auto simp add: update_user_profile_def distinct_map_filter)

lemma call_update_keeps_keys_distinct:
  "distinct (map pkey (user_profile (db m))) \<Longrightarrow>
   distinct (map pkey (user_profile (db (call_update_user_profile clk k v m))))"
  by (simp add: call_update_user_profile_def upsert_keeps_keys_distinct)

lemma pattern_loop_keeps_keys_distinct:
  "distinct (map pkey (user_profile (db m))) \<Longrightarrow>
   distinct (map pkey (user_profile (db (pattern_loop clk t s ps m))))"
  by (induction ps) (auto simp add: call_update_keeps_keys_distinct split: option.splits)

lemma type_loop_keeps_keys_distinct:
  "distinct (map pkey (user_profile (db m))) \<Longrightarrow>
   distinct (map pkey (user_profile (db (type_loop clk s tps m))))"
  by (induction tps arbitrary: m) (auto simp add: pattern_loop_keeps_keys_distinct)

lemma call_store_profile:
  "user_profile (db (snd (call_store_conversation clk u a s i m))) = user_profile (db m)"
  by (simp add: call_store_conversation_def db_store_conversation_def Let_def)

lemma store_keeps_keys_distinct:
  assumes "store_conversation clk u a i m = Inr (txt, m')"
    and "distinct (map pkey (user_profile (db m)))"
  shows "distinct (map pkey (user_profile (db m')))"
proof -
  from assms(1) obtain s where u: "u = PStr s"
    by (cases u) (simp_all add: store_conversation_def extract_profile_info_def)
  let ?m1 = "type_loop clk (lower s) patterns m"
  from assms(1) u have "m' = snd (call_store_conversation clk s a (current_session ?m1) i ?m1)"
    by (auto simp add: store_conversation_def extract_profile_info_def split: prod.splits)
  then show ?thesis
    by (simp add: call_store_profile type_loop_keeps_keys_distinct assms(2))
qed

lemma reachable_keys_distinct: "reachable m \<Longrightarrow> distinct (map pkey (user_profile (db m)))"
proof (induction rule: reachable.induct)
  case (start token)
  show ?case by (simp add: new_manager_def init_database_def)
next
  case (restart m token)
  then show ?case by (simp add: new_manager_def)
next
  case (stored m clk user_msg assistant_msg importance reply m')
  then show ?case by (blast intro: store_keeps_keys_distinct)
next
  case (updated m clk k v)
  then show ?case by (simp add: update_profile_def call_update_keeps_keys_distinct)
next
  case (cleared m)
  then show ?case by (simp add: clear_memory_def db_clear_memory_def)
next
  case (remote_cleared m args)
  then show ?case by (simp add: server_clear_memory_def Let_def)
qed

text \<open>
  C8. After \<open>update_user_profile\<close> with \<open>k\<close> and \<open>v1\<close> and then with \<open>k\<close> and \<open>v2\<close>,
  the relation has exactly one row for \<open>k\<close>; it carries \<open>v2\<close> and the time of the second
  call, and \<open>get_user_profile\<close> maps \<open>k\<close> to \<open>v2\<close>. In every state the program can reach,
  no two profile rows have the same key.
\<close>

theorem upsert_profile_overwrites:
  "filter (\<lambda>r. pkey r = k)
     (user_profile (update_user_profile t2 k v2 (update_user_profile t1 k v1 d))) =
     [\<lparr>pkey = k, pvalue = v2, last_updated = t2\<rparr>] \<and>
   map_of (get_user_profile (update_user_profile t2 k v2 (update_user_profile t1 k v1 d))) k = Some v2 \<and>
   (reachable m \<longrightarrow> distinct (map pkey (user_profile (db m))))"
  by (simp add: upsert_rows_same upsert_lookup reachable_keys_distinct)

theorem upsert_profile_overwrites_witness:
  "filter (\<lambda>r. pkey r = ''name'')
     (user_profile (update_user_profile ''2024-01-01T10:00:02'' ''name'' ''luis''
        (update_user_profile ''2024-01-01T10:00:01'' ''name'' ''juan'' sample_store))) =
     [\<lparr>pkey = ''name'', pvalue = ''luis'', last_updated = ''2024-01-01T10:00:02''\<rparr>] \<and>
   reachable (snd (update_profile sample_clock ''name'' ''luis''
       (snd (update_profile sample_clock ''name'' ''juan'' (new_manager ''20240101_100000'' init_database))))) \<and>
   user_profile (db (snd (update_profile sample_clock ''name'' ''luis''
       (snd (update_profile sample_clock ''name'' ''juan'' (new_manager ''20240101_100000'' init_database)))))) =
     [\<lparr>pkey = ''name'', pvalue = ''luis'', last_updated = ''2024-01-01T10:00:01''\<rparr>]"
proof -
  let ?m = "snd (update_profile sample_clock ''name'' ''luis''
       (snd (update_profile sample_clock ''name'' ''juan'' (new_manager ''20240101_100000'' init_database))))"
  have r: "reachable ?m"
    by (intro reachable.updated reachable.start)
  have "user_profile (db ?m) =
     [\<lparr>pkey = ''name'', pvalue = ''luis'', last_updated = ''2024-01-01T10:00:01''\<rparr>]"
    by (simp add: update_profile_def call_update_user_profile_def update_user_profile_def
        new_manager_def init_database_def sample_clock_digit digit_char_def)
  with r upsert_profile_overwrites [of "''name''" "''2024-01-01T10:00:02''" "''luis''"
      "''2024-01-01T10:00:01''" "''juan''" sample_store ?m]
  show ?thesis by simp
qed

subsection \<open>Storing a turn\<close>

lemma extract_str: "extract_profile_info clk (PStr s) m = Inr (type_loop clk (lower s) patterns m)"
  by (simp add: extract_profile_info_def)


lemma call_store_rows:
  "conversations (db (snd (call_store_conversation clk u a s i m))) =
     conversations (db m) @
       [\<lparr>conv_id = Suc (conv_seq (db m)), timestamp = clk (clock_reads m), session_id = s,
         user_message = u, assistant_response = a, importance_score = i\<rparr>]"
  by (simp add: call_store_conversation_def db_store_conversation_def Let_def)

lemma call_update_rows:
  "conversations (db (call_update_user_profile clk k v m)) = conversations (db m) \<and>
   conv_seq (db (call_update_user_profile clk k v m)) = conv_seq (db m) \<and>
   memory_summaries (db (call_update_user_profile clk k v m)) = memory_summaries (db m) \<and>
   current_session (call_update_user_profile clk k v m) = current_session m"
  by (simp add: call_update_user_profile_def update_user_profile_def)

lemma pattern_loop_rows:
  "conversations (db (pattern_loop clk t s ps m)) = conversations (db m) \<and>
   conv_seq (db (pattern_loop clk t s ps m)) = conv_seq (db m) \<and>
   memory_summaries (db (pattern_loop clk t s ps m)) = memory_summaries (db m) \<and>
   current_session (pattern_loop clk t s ps m) = current_session m"
  by (induction ps) (simp_all add: call_update_rows split: option.splits)

lemma type_loop_rows:
  "conversations (db (type_loop clk s tps m)) = conversations (db m) \<and>
   conv_seq (db (type_loop clk s tps m)) = conv_seq (db m) \<and>
   memory_summaries (db (type_loop clk s tps m)) = memory_summaries (db m) \<and>
   current_session (type_loop clk s tps m) = current_session m"
  by (induction tps arbitrary: m) (auto simp add: pattern_loop_rows)

lemma store_str:
  "store_conversation clk (PStr s) a i m =
     Inr (''Stored conversation #'' @
            str_of_nat (fst (call_store_conversation clk s a (current_session m) i
                               (type_loop clk (lower s) patterns m))) @ '' successfully'',
          snd (call_store_conversation clk s a (current_session m) i
                 (type_loop clk (lower s) patterns m)))"
  by (simp add: store_conversation_def extract_profile_info_def case_prod_beta type_loop_rows)




subsection \<open>Two turns, end to end\<close>

lemmas string_eval = lower_def lower_char_def code_point_def is_word_def is_digit_def n_tilde_def
  patterns_def Let_def

lemma turn1_extract:
  "type_loop clk (lower ''Mi nombre es Juan'') patterns m =
     call_update_user_profile clk ''name'' ''juan'' m"
  by (simp add: string_eval)

lemma turn2_extract:
  "type_loop clk (lower (''Tengo 25 a'' @ [n_tilde] @ ''os'')) patterns m =
     call_update_user_profile clk ''age'' ''25'' m"
  by (simp add: string_eval)

lemma call_store_profile_rows:
  "user_profile (db (snd (call_store_conversation clk u a s i m))) = user_profile (db m)"
  by (simp add: call_store_conversation_def db_store_conversation_def Let_def)

lemma call_update_profile_rows:
  "user_profile (db (call_update_user_profile clk k v m)) =
     filter (\<lambda>r. pkey r \<noteq> k) (user_profile (db m)) @
       [\<lparr>pkey = k, pvalue = v, last_updated = clk (clock_reads m)\<rparr>]"
  by (simp add: call_update_user_profile_def update_user_profile_def)

text \<open>
  C3, as the code has it. The patterns run on the lower-cased utterance and the captured
  group is taken from it, so after the two turns, starting from an empty profile, the
  profile holds \<open>name = juan\<close> (in lower case) and \<open>age = 25\<close>, in this order, and
  \<open>get_profile\<close> renders exactly these two facts.
\<close>

theorem two_turns_profile:
  assumes "user_profile (db m) = []"
  shows "\<exists>r1 m1 r2 m2.
     store_conversation clk (PStr ''Mi nombre es Juan'') ''Hola Juan'' i1 m = Inr (r1, m1) \<and>
     store_conversation clk (PStr (''Tengo 25 a'' @ [n_tilde] @ ''os''))
        (''Qu'' @ [CHR 0xE9] @ '' interesante'') i2 m1 = Inr (r2, m2) \<and>
     get_user_profile (db m2) = [(''name'', ''juan''), (''age'', ''25'')] \<and>
     fst (get_profile m2) =
       ''{'' @ [newline] @ [CHR '' '', CHR '' '', CHR 0x22] @ ''name'' @ [CHR 0x22] @ '': '' @
          [CHR 0x22] @ ''juan'' @ [CHR 0x22] @ '','' @ [newline] @
          [CHR '' '', CHR '' '', CHR 0x22] @ ''age'' @ [CHR 0x22] @ '': '' @
          [CHR 0x22] @ ''25'' @ [CHR 0x22] @ [newline] @ ''}''"
proof -
  let ?e1 = "call_update_user_profile clk ''name'' ''juan'' m"
  let ?m1 = "snd (call_store_conversation clk ''Mi nombre es Juan'' ''Hola Juan'' (current_session m) i1 ?e1)"
  let ?e2 = "call_update_user_profile clk ''age'' ''25'' ?m1"
  let ?m2 = "snd (call_store_conversation clk (''Tengo 25 a'' @ [n_tilde] @ ''os'')
        (''Qu'' @ [CHR 0xE9] @ '' interesante'') (current_session ?m1) i2 ?e2)"
  have s1: "store_conversation clk (PStr ''Mi nombre es Juan'') ''Hola Juan'' i1 m =
      Inr (''Stored conversation #'' @
            str_of_nat (fst (call_store_conversation clk ''Mi nombre es Juan'' ''Hola Juan''
               (current_session m) i1 ?e1)) @ '' successfully'', ?m1)"
    by (simp only: store_str turn1_extract)
  have s2: "store_conversation clk (PStr (''Tengo 25 a'' @ [n_tilde] @ ''os''))
        (''Qu'' @ [CHR 0xE9] @ '' interesante'') i2 ?m1 =
      Inr (''Stored conversation #'' @
            str_of_nat (fst (call_store_conversation clk (''Tengo 25 a'' @ [n_tilde] @ ''os'')
               (''Qu'' @ [CHR 0xE9] @ '' interesante'') (current_session ?m1) i2 ?e2)) @
            '' successfully'', ?m2)"
    by (simp only: store_str turn2_extract)
  have rows: "map (\<lambda>r. (pkey r, pvalue r)) (user_profile (db ?m2)) =
      [(''name'', ''juan''), (''age'', ''25'')]"
    by (simp add: call_store_profile_rows call_update_profile_rows assms)
  have prof: "get_user_profile (db ?m2) = [(''name'', ''juan''), (''age'', ''25'')]"
    unfolding get_user_profile_def rows by (simp add: dict_of_def)
  have js: "fst (get_profile ?m2) =
       ''{'' @ [newline] @ [CHR '' '', CHR '' '', CHR 0x22] @ ''name'' @ [CHR 0x22] @ '': '' @
          [CHR 0x22] @ ''juan'' @ [CHR 0x22] @ '','' @ [newline] @
          [CHR '' '', CHR '' '', CHR 0x22] @ ''age'' @ [CHR 0x22] @ '': '' @
          [CHR 0x22] @ ''25'' @ [CHR 0x22] @ [newline] @ ''}''"
    unfolding get_profile_def prof
    by (simp add: json_dumps_def json_string_def json_escape_def code_point_def)
  from s1 s2 prof js show ?thesis by blast
qed

theorem two_turns_profile_witness:
  "user_profile (db (new_manager ''20240101_100000'' init_database)) = [] \<and>
   (\<exists>r1 m1 r2 m2.
     store_conversation sample_clock (PStr ''Mi nombre es Juan'') ''Hola Juan'' 1
       (new_manager ''20240101_100000'' init_database) = Inr (r1, m1) \<and>
     store_conversation sample_clock (PStr (''Tengo 25 a'' @ [n_tilde] @ ''os''))
        (''Qu'' @ [CHR 0xE9] @ '' interesante'') 1 m1 = Inr (r2, m2) \<and>
     get_user_profile (db m2) = [(''name'', ''juan''), (''age'', ''25'')])"
proof -
  have h: "user_profile (db (new_manager ''20240101_100000'' init_database)) = []"
    by (simp add: new_manager_def init_database_def)
  from two_turns_profile [OF h, of sample_clock 1 1] h show ?thesis by blast
qed

text \<open>
  C3 as stated fails: after the two turns on a new database the name in the profile is
  \<open>juan\<close>, not \<open>Juan\<close>.
\<close>

theorem two_turns_profile_counterexample:
  "store_conversation sample_clock (PStr ''Mi nombre es Juan'') ''Hola Juan'' 1
     (new_manager ''20240101_100000'' init_database) =
     Inr (''Stored conversation #1 successfully'',
       \<lparr>db = \<lparr>conversations =
                [\<lparr>conv_id = 1, timestamp = ''2024-01-01T10:00:01'', session_id = ''20240101_100000'',
                  user_message = ''Mi nombre es Juan'', assistant_response = ''Hola Juan'',
                  importance_score = 1\<rparr>],
              conv_seq = 1, memory_summaries = [],
              user_profile = [\<lparr>pkey = ''name'', pvalue = ''juan'', last_updated = ''2024-01-01T10:00:00''\<rparr>]\<rparr>,
        current_session = ''20240101_100000'', clock_reads = 2\<rparr>) \<and>
   store_conversation sample_clock (PStr (''Tengo 25 a'' @ [n_tilde] @ ''os''))
     (''Qu'' @ [CHR 0xE9] @ '' interesante'') 1
     \<lparr>db = \<lparr>conversations =
                [\<lparr>conv_id = 1, timestamp = ''2024-01-01T10:00:01'', session_id = ''20240101_100000'',
                  user_message = ''Mi nombre es Juan'', assistant_response = ''Hola Juan'',
                  importance_score = 1\<rparr>],
              conv_seq = 1, memory_summaries = [],
              user_profile = [\<lparr>pkey = ''name'', pvalue = ''juan'', last_updated = ''2024-01-01T10:00:00''\<rparr>]\<rparr>,
        current_session = ''20240101_100000'', clock_reads = 2\<rparr> =
     Inr (''Stored conversation #2 successfully'',
       \<lparr>db = \<lparr>conversations =
                [\<lparr>conv_id = 1, timestamp = ''2024-01-01T10:00:01'', session_id = ''20240101_100000'',
                  user_message = ''Mi nombre es Juan'', assistant_response = ''Hola Juan'',
                  importance_score = 1\<rparr>,
                 \<lparr>conv_id = 2, timestamp = ''2024-01-01T10:00:03'', session_id = ''20240101_100000'',
                  user_message = ''Tengo 25 a'' @ [n_tilde] @ ''os'',
                  assistant_response = ''Qu'' @ [CHR 0xE9] @ '' interesante'',
                  importance_score = 1\<rparr>],
              conv_seq = 2, memory_summaries = [],
              user_profile = [\<lparr>pkey = ''name'', pvalue = ''juan'', last_updated = ''2024-01-01T10:00:00''\<rparr>,
                              \<lparr>pkey = ''age'', pvalue = ''25'', last_updated = ''2024-01-01T10:00:02''\<rparr>]\<rparr>,
        current_session = ''20240101_100000'', clock_reads = 4\<rparr>) \<and>
   map_of (get_user_profile
     \<lparr>conversations =
                [\<lparr>conv_id = 1, timestamp = ''2024-01-01T10:00:01'', session_id = ''20240101_100000'',
                  user_message = ''Mi nombre es Juan'', assistant_response = ''Hola Juan'',
                  importance_score = 1\<rparr>,
                 \<lparr>conv_id = 2, timestamp = ''2024-01-01T10:00:03'', session_id = ''20240101_100000'',
                  user_message = ''Tengo 25 a'' @ [n_tilde] @ ''os'',
                  assistant_response = ''Qu'' @ [CHR 0xE9] @ '' interesante'',
                  importance_score = 1\<rparr>],
              conv_seq = 2, memory_summaries = [],
              user_profile = [\<lparr>pkey = ''name'', pvalue = ''juan'', last_updated = ''2024-01-01T10:00:00''\<rparr>,
                              \<lparr>pkey = ''age'', pvalue = ''25'', last_updated = ''2024-01-01T10:00:02''\<rparr>]\<rparr>) ''name''
     = Some ''juan'' \<and>
   map_of (get_user_profile
     \<lparr>conversations =
                [\<lparr>conv_id = 1, timestamp = ''2024-01-01T10:00:01'', session_id = ''20240101_100000'',
                  user_message = ''Mi nombre es Juan'', assistant_response = ''Hola Juan'',
                  importance_score = 1\<rparr>,
                 \<lparr>conv_id = 2, timestamp = ''2024-01-01T10:00:03'', session_id = ''20240101_100000'',
                  user_message = ''Tengo 25 a'' @ [n_tilde] @ ''os'',
                  assistant_response = ''Qu'' @ [CHR 0xE9] @ '' interesante'',
                  importance_score = 1\<rparr>],
              conv_seq = 2, memory_summaries = [],
              user_profile = [\<lparr>pkey = ''name'', pvalue = ''juan'', last_updated = ''2024-01-01T10:00:00''\<rparr>,
                              \<lparr>pkey = ''age'', pvalue = ''25'', last_updated = ''2024-01-01T10:00:02''\<rparr>]\<rparr>) ''name''
     \<noteq> Some ''Juan''"
  apply (intro conjI)
     apply (simp add: store_str string_eval call_store_conversation_def
      db_store_conversation_def call_update_user_profile_def update_user_profile_def
      new_manager_def init_database_def sample_clock_digit str_of_nat_digit digit_char_def)
    apply (simp add: store_str string_eval call_store_conversation_def
      db_store_conversation_def call_update_user_profile_def update_user_profile_def
      sample_clock_digit str_of_nat_digit digit_char_def)
   apply (simp add: get_user_profile_def dict_of_def)
  apply (simp add: get_user_profile_def dict_of_def)
  done

subsection \<open>The recent turns of the context\<close>

lemma recent_ignores_other_session:
  "s \<noteq> session \<Longrightarrow>
   get_recent_conversations L session
     (db (snd (call_store_conversation clk u a s i m))) =
   get_recent_conversations L session (db m)"
  by (simp add: get_recent_conversations_def call_store_conversation_def
      db_store_conversation_def Let_def)

text \<open>
  C1 against the code. A turn stored through the facade carries the session token, and
  \<open>get_context\<close> fetches the recent turns of the session \<open>"default"\<close>: whenever the token is
  not \<open>"default"\<close> (a token has the form \<open>yyyymmdd_HHMMSS\<close>), storing a turn leaves the recent
  turns that \<open>get_context\<close> reads as they were. On a new database the turn just stored is
  not rendered: \<open>get_context("hi")\<close> is \<open>"hi"\<close>.
\<close>

theorem stored_turn_not_in_recent:
  assumes "current_session m \<noteq> ''default''"
    and "store_conversation clk (PStr s) a i m = Inr (reply, m')"
  shows "get_recent_conversations L ''default'' (db m') = get_recent_conversations L ''default'' (db m)"
proof -
  let ?m1 = "type_loop clk (lower s) patterns m"
  from assms(2) have m': "m' = snd (call_store_conversation clk s a (current_session m) i ?m1)"
    by (simp add: store_str)
  have "get_recent_conversations L ''default'' (db ?m1) = get_recent_conversations L ''default'' (db m)"
    by (simp add: get_recent_conversations_def type_loop_rows)
  with assms(1) show ?thesis
    by (simp add: m' recent_ignores_other_session)
qed

theorem stored_turn_not_in_recent_witness:
  "current_session (new_manager ''20240101_100000'' init_database) \<noteq> ''default'' \<and>
   store_conversation sample_clock (PStr ''hola'') ''que tal'' 1
     (new_manager ''20240101_100000'' init_database) =
     Inr (''Stored conversation #1 successfully'',
       \<lparr>db = \<lparr>conversations =
                [\<lparr>conv_id = 1, timestamp = ''2024-01-01T10:00:00'', session_id = ''20240101_100000'',
                  user_message = ''hola'', assistant_response = ''que tal'',
                  importance_score = 1\<rparr>],
              conv_seq = 1, memory_summaries = [], user_profile = []\<rparr>,
        current_session = ''20240101_100000'', clock_reads = 1\<rparr>) \<and>
   get_recent_conversations 5 ''default''
     \<lparr>conversations =
                [\<lparr>conv_id = 1, timestamp = ''2024-01-01T10:00:00'', session_id = ''20240101_100000'',
                  user_message = ''hola'', assistant_response = ''que tal'',
                  importance_score = 1\<rparr>],
              conv_seq = 1, memory_summaries = [], user_profile = []\<rparr> = [] \<and>
   fst (get_context ''hi'' 5
       \<lparr>db = \<lparr>conversations =
                [\<lparr>conv_id = 1, timestamp = ''2024-01-01T10:00:00'', session_id = ''20240101_100000'',
                  user_message = ''hola'', assistant_response = ''que tal'',
                  importance_score = 1\<rparr>],
              conv_seq = 1, memory_summaries = [], user_profile = []\<rparr>,
        current_session = ''20240101_100000'', clock_reads = 1\<rparr>) = ''hi''"
proof -
  let ?m0 = "new_manager ''20240101_100000'' init_database"
  let ?d1 = "\<lparr>conversations =
                [\<lparr>conv_id = 1, timestamp = ''2024-01-01T10:00:00'', session_id = ''20240101_100000'',
                  user_message = ''hola'', assistant_response = ''que tal'',
                  importance_score = 1\<rparr>],
              conv_seq = 1, memory_summaries = [], user_profile = []\<rparr>"
  let ?m1 = "\<lparr>db = ?d1, current_session = ''20240101_100000'', clock_reads = 1\<rparr>"
  have h1: "current_session ?m0 \<noteq> ''default''"
    by (simp add: new_manager_def)
  have h2: "store_conversation sample_clock (PStr ''hola'') ''que tal'' 1 ?m0 =
      Inr (''Stored conversation #1 successfully'', ?m1)"
    by (simp add: store_str string_eval call_store_conversation_def
      db_store_conversation_def new_manager_def init_database_def sample_clock_digit str_of_nat_digit digit_char_def)
  have r0: "get_recent_conversations 5 ''default'' (db ?m0) = []"
    by (simp add: recent_of_no_rows new_manager_def init_database_def)
  from stored_turn_not_in_recent [OF h1 h2, of 5] r0
  have r1: "get_recent_conversations 5 ''default'' (db ?m1) = []" by simp
  then have r1': "get_recent_conversations 5 ''default'' ?d1 = []" by simp
  have "fst (get_context ''hi'' 5 ?m1) = ''hi''"
    using r1' by (simp add: get_context_def profile_of_no_rows)
  with h1 h2 r1' show ?thesis by simp
qed

subsection \<open>The profile extractor\<close>

lemma pattern_loop_no_match:
  "\<forall>p \<in> set ps. re_search p s = None \<Longrightarrow> pattern_loop clk t s ps m = m"
  by (induction ps) simp_all

lemma pattern_loop_first_match:
  "i < length ps \<Longrightarrow> re_search (ps ! i) s = Some v \<Longrightarrow> \<forall>j<i. re_search (ps ! j) s = None \<Longrightarrow>
   pattern_loop clk t s ps m = call_update_user_profile clk t v m"
proof (induction ps arbitrary: i)
  case Nil
  then show ?case by simp
next
  case (Cons p ps)
  show ?case
  proof (cases i)
    case 0
    with Cons.prems show ?thesis by simp
  next
    case (Suc i')
    from Cons.prems(3) Suc have head: "re_search p s = None" by auto
    from Cons.prems(3) Suc have "\<forall>j<i'. re_search (ps ! j) s = None" by auto
    with Cons.IH [of i'] Cons.prems Suc head show ?thesis by simp
  qed
qed

lemma pattern_loop_some_match:
  "\<exists>p \<in> set ps. re_search p s \<noteq> None \<Longrightarrow>
   \<exists>v. pattern_loop clk t s ps m = call_update_user_profile clk t v m"
  by (induction ps) (auto split: option.splits)

lemma key_rows_update_same:
  "key_rows k (call_update_user_profile clk k v m) =
     [\<lparr>pkey = k, pvalue = v, last_updated = clk (clock_reads m)\<rparr>]"
  by (simp add: key_rows_def call_update_user_profile_def upsert_rows_same)

lemma key_rows_update_other:
  "k' \<noteq> k \<Longrightarrow> key_rows k' (call_update_user_profile clk k v m) = key_rows k' m"
  by (simp add: key_rows_def call_update_user_profile_def upsert_rows_other)

lemma key_rows_pattern_loop_other:
  "k' \<noteq> t \<Longrightarrow> key_rows k' (pattern_loop clk t s ps m) = key_rows k' m"
  by (induction ps) (simp_all add: key_rows_update_other split: option.splits)

lemma key_rows_type_loop_other:
  "k \<notin> fst ` set tps \<Longrightarrow> key_rows k (type_loop clk s tps m) = key_rows k m"
proof (induction tps arbitrary: m)
  case Nil
  show ?case by simp
next
  case (Cons tp tps)
  obtain t ps where tp: "tp = (t, ps)" by (cases tp)
  with Cons.prems have "k \<noteq> t" and "k \<notin> fst ` set tps" by auto
  with Cons.IH tp show ?case by (simp add: key_rows_pattern_loop_other)
qed

lemma key_rows_type_loop_unmatched:
  "distinct (map fst tps) \<Longrightarrow> (t, ps) \<in> set tps \<Longrightarrow> \<forall>p \<in> set ps. re_search p s = None \<Longrightarrow>
   key_rows t (type_loop clk s tps m) = key_rows t m"
proof (induction tps arbitrary: m)
  case Nil
  then show ?case by simp
next
  case (Cons tp tps)
  obtain t' ps' where tp: "tp = (t', ps')" by (cases tp)
  show ?case
  proof (cases "(t, ps) = tp")
    case True
    with Cons.prems(1) have "t \<notin> fst ` set tps" by force
    with True [symmetric] Cons.prems(3) show ?thesis
      by (simp add: key_rows_type_loop_other pattern_loop_no_match)
  next
    case False
    with Cons.prems have mem: "(t, ps) \<in> set tps" and "t' \<noteq> t"
      using tp by (auto simp: image_iff)
    with Cons.IH [OF _ mem Cons.prems(3)] Cons.prems(1) tp show ?thesis
      by (simp add: key_rows_pattern_loop_other)
  qed
qed

lemma key_rows_type_loop_matched:
  "distinct (map fst tps) \<Longrightarrow> (t, ps) \<in> set tps \<Longrightarrow>
   i < length ps \<Longrightarrow> re_search (ps ! i) s = Some v \<Longrightarrow> \<forall>j<i. re_search (ps ! j) s = None \<Longrightarrow>
   \<exists>now. key_rows t (type_loop clk s tps m) = [\<lparr>pkey = t, pvalue = v, last_updated = now\<rparr>]"
proof (induction tps arbitrary: m)
  case Nil
  then show ?case by simp
next
  case (Cons tp tps)
  obtain t' ps' where tp: "tp = (t', ps')" by (cases tp)
  show ?case
  proof (cases "(t, ps) = tp")
    case True
    with Cons.prems(1) have "t \<notin> fst ` set tps" by force
    with True [symmetric] Cons.prems(3,4,5) show ?thesis
      by (simp add: key_rows_type_loop_other pattern_loop_first_match key_rows_update_same)
  next
    case False
    with Cons.prems have mem: "(t, ps) \<in> set tps"
      using tp by auto
    from Cons.prems(1) have "distinct (map fst tps)" by simp
    from Cons.IH [OF this mem Cons.prems(3,4,5)] tp show ?thesis
      by simp
  qed
qed

lemma keys_after_update:
  "map pkey (user_profile (db (call_update_user_profile clk k v m))) =
     filter (\<lambda>x. x \<noteq> k) (map pkey (user_profile (db m))) @ [k]"
  by (simp add: call_update_user_profile_def update_user_profile_def filter_map comp_def)

lemma keys_after_pattern_loop:
  "map pkey (user_profile (db (pattern_loop clk t s ps m))) =
     (if \<exists>p \<in> set ps. re_search p s \<noteq> None
      then filter (\<lambda>x. x \<noteq> t) (map pkey (user_profile (db m))) @ [t]
      else map pkey (user_profile (db m)))"
  by (induction ps) (auto simp add: keys_after_update split: option.splits)

lemma reads_after_pattern_loop:
  "clock_reads (pattern_loop clk t s ps m) =
     (if \<exists>p \<in> set ps. re_search p s \<noteq> None then Suc (clock_reads m) else clock_reads m)"
  by (induction ps) (auto simp add: call_update_user_profile_def split: option.splits)

lemma hit_types_subset: "set (hit_types s tps) \<subseteq> fst ` set tps"
  by (auto simp add: hit_types_def)

lemma keys_after_type_loop:
  "distinct (map fst tps) \<Longrightarrow>
   map pkey (user_profile (db (type_loop clk s tps m))) =
     filter (\<lambda>x. x \<notin> set (hit_types s tps)) (map pkey (user_profile (db m))) @ hit_types s tps"
proof (induction tps arbitrary: m)
  case Nil
  show ?case by (simp add: hit_types_def)
next
  case (Cons tp tps)
  obtain t ps where tp: "tp = (t, ps)" by (cases tp)
  from Cons.prems tp have d: "distinct (map fst tps)" and fresh: "t \<notin> fst ` set tps" by auto
  from fresh hit_types_subset [of s tps] have nh: "t \<notin> set (hit_types s tps)" by blast
  show ?case
  proof (cases "\<exists>p \<in> set ps. re_search p s \<noteq> None")
    case True
    then have h: "hit_types s ((t, ps) # tps) = t # hit_types s tps"
      by (simp add: hit_types_def)
    have f: "filter (\<lambda>x. x \<notin> set (hit_types s tps)) (filter (\<lambda>x. x \<noteq> t) (map pkey (user_profile (db m)))) =
          filter (\<lambda>x. x \<notin> set (t # hit_types s tps)) (map pkey (user_profile (db m)))"
      by (auto intro: filter_cong)
    have "map pkey (user_profile (db (type_loop clk s ((t, ps) # tps) m))) =
        filter (\<lambda>x. x \<notin> set (hit_types s tps))
          (filter (\<lambda>x. x \<noteq> t) (map pkey (user_profile (db m))) @ [t]) @ hit_types s tps"
      using True by (simp only: type_loop.simps Cons.IH [OF d] keys_after_pattern_loop if_True)
    also have "\<dots> = filter (\<lambda>x. x \<notin> set (t # hit_types s tps)) (map pkey (user_profile (db m))) @
        t # hit_types s tps"
      using nh by (simp only: filter_append f) simp
    finally show ?thesis by (simp only: tp h)
  next
    case False
    then have h: "hit_types s ((t, ps) # tps) = hit_types s tps"
      by (simp add: hit_types_def)
    have "map pkey (user_profile (db (type_loop clk s ((t, ps) # tps) m))) =
        filter (\<lambda>x. x \<notin> set (hit_types s tps)) (map pkey (user_profile (db m))) @ hit_types s tps"
      using False by (simp only: type_loop.simps Cons.IH [OF d] keys_after_pattern_loop if_False)
    then show ?thesis by (simp only: tp h)
  qed
qed

lemma reads_after_type_loop:
  "clock_reads (type_loop clk s tps m) = clock_reads m + length (hit_types s tps)"
proof (induction tps arbitrary: m)
  case Nil
  show ?case by (simp add: hit_types_def)
next
  case (Cons tp tps)
  obtain t ps where tp: "tp = (t, ps)" by (cases tp)
  show ?case
    by (simp add: tp Cons.IH reads_after_pattern_loop hit_types_def)
qed

lemma patterns_keys: "map fst patterns = [''name'', ''age'', ''profession'', ''location'']"
  by (simp add: patterns_def)

text \<open>
  C7. For every utterance (a \<open>str\<close>) the extractor returns normally. The types are tried in
  the order name, age, profession, location on the lower-cased utterance. For each type,
  if the pattern at index \<open>i\<close> matches and no earlier pattern of the type does, the profile
  afterwards holds exactly one row for the type, with the group that pattern \<open>i\<close> captured;
  if no pattern of the type matches, the rows of that key are untouched, and so are the
  rows of every other key. Each type is decided by its own patterns alone. The keys of the
  relation afterwards are the old keys without the matched types, followed by the matched
  types in dictionary order; there is one upsert (one clock reading) per matched type, at
  most four, and the other two relations are untouched.
\<close>

theorem extractor_first_match_per_type:
  "\<exists>m'. extract_profile_info clk (PStr s) m = Inr m' \<and>
     map fst patterns = [''name'', ''age'', ''profession'', ''location''] \<and>
     (\<forall>(t, ps) \<in> set patterns.
        (\<forall>i v. i < length ps \<and> re_search (ps ! i) (lower s) = Some v \<and>
               (\<forall>j<i. re_search (ps ! j) (lower s) = None) \<longrightarrow>
               (\<exists>now. filter (\<lambda>r. pkey r = t) (user_profile (db m')) =
                        [\<lparr>pkey = t, pvalue = v, last_updated = now\<rparr>])) \<and>
        ((\<forall>p \<in> set ps. re_search p (lower s) = None) \<longrightarrow>
           filter (\<lambda>r. pkey r = t) (user_profile (db m')) =
           filter (\<lambda>r. pkey r = t) (user_profile (db m)))) \<and>
     (\<forall>k. k \<notin> fst ` set patterns \<longrightarrow>
        filter (\<lambda>r. pkey r = k) (user_profile (db m')) =
        filter (\<lambda>r. pkey r = k) (user_profile (db m))) \<and>
     map pkey (user_profile (db m')) =
       filter (\<lambda>k. k \<notin> set (hit_types (lower s) patterns)) (map pkey (user_profile (db m))) @
       hit_types (lower s) patterns \<and>
     clock_reads m' = clock_reads m + length (hit_types (lower s) patterns) \<and>
     length (hit_types (lower s) patterns) \<le> 4 \<and>
     conversations (db m') = conversations (db m) \<and>
     memory_summaries (db m') = memory_summaries (db m)"
proof -
  let ?m' = "type_loop clk (lower s) patterns m"
  have d: "distinct (map fst patterns)"
    by (simp add: patterns_keys)
  have e: "extract_profile_info clk (PStr s) m = Inr ?m'"
    by (simp add: extract_profile_info_def)
  have a: "\<forall>(t, ps) \<in> set patterns.
        (\<forall>i v. i < length ps \<and> re_search (ps ! i) (lower s) = Some v \<and>
               (\<forall>j<i. re_search (ps ! j) (lower s) = None) \<longrightarrow>
               (\<exists>now. filter (\<lambda>r. pkey r = t) (user_profile (db ?m')) =
                        [\<lparr>pkey = t, pvalue = v, last_updated = now\<rparr>])) \<and>
        ((\<forall>p \<in> set ps. re_search p (lower s) = None) \<longrightarrow>
           filter (\<lambda>r. pkey r = t) (user_profile (db ?m')) =
           filter (\<lambda>r. pkey r = t) (user_profile (db m)))"
  proof (intro ballI, clarify, intro conjI allI impI)
    fix t ps i v
    assume mem: "(t, ps) \<in> set patterns"
      and h: "i < length ps \<and> re_search (ps ! i) (lower s) = Some v \<and>
               (\<forall>j<i. re_search (ps ! j) (lower s) = None)"
    from h have h1: "i < length ps" and h2: "re_search (ps ! i) (lower s) = Some v"
      and h3: "\<forall>j<i. re_search (ps ! j) (lower s) = None" by simp_all
    from key_rows_type_loop_matched [OF d mem h1 h2 h3, of clk m]
    show "\<exists>now. filter (\<lambda>r. pkey r = t) (user_profile (db ?m')) =
                        [\<lparr>pkey = t, pvalue = v, last_updated = now\<rparr>]"
      unfolding key_rows_def .
  next
    fix t ps
    assume mem: "(t, ps) \<in> set patterns"
      and h: "\<forall>p \<in> set ps. re_search p (lower s) = None"
    from key_rows_type_loop_unmatched [OF d mem h, of clk m]
    show "filter (\<lambda>r. pkey r = t) (user_profile (db ?m')) =
           filter (\<lambda>r. pkey r = t) (user_profile (db m))"
      unfolding key_rows_def .
  qed
  have c: "\<forall>k. k \<notin> fst ` set patterns \<longrightarrow>
        filter (\<lambda>r. pkey r = k) (user_profile (db ?m')) =
        filter (\<lambda>r. pkey r = k) (user_profile (db m))"
  proof (intro allI impI)
    fix k assume "k \<notin> fst ` set patterns"
    from key_rows_type_loop_other [OF this, of clk "lower s" m]
    show "filter (\<lambda>r. pkey r = k) (user_profile (db ?m')) =
        filter (\<lambda>r. pkey r = k) (user_profile (db m))"
      unfolding key_rows_def .
  qed
  have "length (hit_types (lower s) patterns) \<le> length patterns"
    by (simp add: hit_types_def)
  then have n: "length (hit_types (lower s) patterns) \<le> 4"
    by (simp add: patterns_def)
  show ?thesis
  proof (intro exI [of _ ?m'] conjI)
    show "extract_profile_info clk (PStr s) m = Inr ?m'" by (rule e)
    show "map fst patterns = [''name'', ''age'', ''profession'', ''location'']"
      by (rule patterns_keys)
    show "\<forall>(t, ps) \<in> set patterns.
        (\<forall>i v. i < length ps \<and> re_search (ps ! i) (lower s) = Some v \<and>
               (\<forall>j<i. re_search (ps ! j) (lower s) = None) \<longrightarrow>
               (\<exists>now. filter (\<lambda>r. pkey r = t) (user_profile (db ?m')) =
                        [\<lparr>pkey = t, pvalue = v, last_updated = now\<rparr>])) \<and>
        ((\<forall>p \<in> set ps. re_search p (lower s) = None) \<longrightarrow>
           filter (\<lambda>r. pkey r = t) (user_profile (db ?m')) =
           filter (\<lambda>r. pkey r = t) (user_profile (db m)))" by (rule a)
    show "\<forall>k. k \<notin> fst ` set patterns \<longrightarrow>
        filter (\<lambda>r. pkey r = k) (user_profile (db ?m')) =
        filter (\<lambda>r. pkey r = k) (user_profile (db m))" by (rule c)
    show "map pkey (user_profile (db ?m')) =
       filter (\<lambda>k. k \<notin> set (hit_types (lower s) patterns)) (map pkey (user_profile (db m))) @
       hit_types (lower s) patterns" by (rule keys_after_type_loop [OF d])
    show "clock_reads ?m' = clock_reads m + length (hit_types (lower s) patterns)"
      by (rule reads_after_type_loop)
    show "length (hit_types (lower s) patterns) \<le> 4" by (rule n)
    show "conversations (db ?m') = conversations (db m)" by (simp add: type_loop_rows)
    show "memory_summaries (db ?m') = memory_summaries (db m)" by (simp add: type_loop_rows)
  qed
qed

theorem extractor_first_match_per_type_witness:
  "\<exists>m'. extract_profile_info sample_clock (PStr ''Me llamo Ana y vivo en Cusco'') sample_manager = Inr m' \<and>
     re_search (''mi nombre es '', Word, []) (lower ''Me llamo Ana y vivo en Cusco'') = None \<and>
     re_search (''me llamo '', Word, []) (lower ''Me llamo Ana y vivo en Cusco'') = Some ''ana'' \<and>
     (\<exists>now. filter (\<lambda>r. pkey r = ''name'') (user_profile (db m')) =
        [\<lparr>pkey = ''name'', pvalue = ''ana'', last_updated = now\<rparr>]) \<and>
     re_search (''tengo '', Digit, '' a'' @ [n_tilde] @ ''os'') (lower ''Me llamo Ana y vivo en Cusco'') = None \<and>
     re_search (''mi edad es '', Digit, []) (lower ''Me llamo Ana y vivo en Cusco'') = None \<and>
     filter (\<lambda>r. pkey r = ''age'') (user_profile (db m')) = [] \<and>
     filter (\<lambda>r. pkey r = ''hobby'') (user_profile (db m')) = [] \<and>
     map pkey (user_profile (db m')) = [''name'', ''location''] \<and>
     clock_reads m' = 2"
proof -
  let ?s = "lower ''Me llamo Ana y vivo en Cusco''"
  let ?names = "[(''mi nombre es '', Word, []), (''me llamo '', Word, []), (''soy '', Word, [])] :: pattern list"
  let ?ages = "[(''tengo '', Digit, '' a'' @ [n_tilde] @ ''os''), (''mi edad es '', Digit, [])] :: pattern list"
  have n0: "re_search (''mi nombre es '', Word, []) ?s = None"
    by (simp add: string_eval)
  have n1: "re_search (''me llamo '', Word, []) ?s = Some ''ana''"
    by (simp add: string_eval)
  have a0: "re_search (''tengo '', Digit, '' a'' @ [n_tilde] @ ''os'') ?s = None"
    by (simp add: string_eval)
  have a1: "re_search (''mi edad es '', Digit, []) ?s = None"
    by (simp add: string_eval)
  have hits: "hit_types ?s patterns = [''name'', ''location'']"
    by (simp add: hit_types_def string_eval)
  have mem_n: "(''name'', ?names) \<in> set patterns" and mem_a: "(''age'', ?ages) \<in> set patterns"
    by (simp_all add: patterns_def)
  have other: "''hobby'' \<notin> fst ` set patterns"
    by (simp add: patterns_def)
  have old: "map pkey (user_profile (db sample_manager)) = [''name'']"
    and reads: "clock_reads sample_manager = 0"
    and no_age: "filter (\<lambda>r. pkey r = ''age'') (user_profile (db sample_manager)) = []"
    and no_hobby: "filter (\<lambda>r. pkey r = ''hobby'') (user_profile (db sample_manager)) = []"
    by (simp_all add: sample_manager_def sample_store_def new_manager_def)
  from extractor_first_match_per_type [of sample_clock "''Me llamo Ana y vivo en Cusco''" sample_manager]
  obtain m' where e: "extract_profile_info sample_clock (PStr ''Me llamo Ana y vivo en Cusco'') sample_manager = Inr m'"
    and typed: "\<forall>(t, ps) \<in> set patterns.
        (\<forall>i v. i < length ps \<and> re_search (ps ! i) ?s = Some v \<and>
               (\<forall>j<i. re_search (ps ! j) ?s = None) \<longrightarrow>
               (\<exists>now. filter (\<lambda>r. pkey r = t) (user_profile (db m')) =
                        [\<lparr>pkey = t, pvalue = v, last_updated = now\<rparr>])) \<and>
        ((\<forall>p \<in> set ps. re_search p ?s = None) \<longrightarrow>
           filter (\<lambda>r. pkey r = t) (user_profile (db m')) =
           filter (\<lambda>r. pkey r = t) (user_profile (db sample_manager)))"
    and rest: "\<forall>k. k \<notin> fst ` set patterns \<longrightarrow>
        filter (\<lambda>r. pkey r = k) (user_profile (db m')) =
        filter (\<lambda>r. pkey r = k) (user_profile (db sample_manager))"
    and keys: "map pkey (user_profile (db m')) =
       filter (\<lambda>k. k \<notin> set (hit_types ?s patterns)) (map pkey (user_profile (db sample_manager))) @
       hit_types ?s patterns"
    and rd: "clock_reads m' = clock_reads sample_manager + length (hit_types ?s patterns)"
    by (elim exE conjE)
  have for_names:
    "(\<forall>i v. i < length ?names \<and> re_search (?names ! i) ?s = Some v \<and>
               (\<forall>j<i. re_search (?names ! j) ?s = None) \<longrightarrow>
               (\<exists>now. filter (\<lambda>r. pkey r = ''name'') (user_profile (db m')) =
                        [\<lparr>pkey = ''name'', pvalue = v, last_updated = now\<rparr>])) \<and>
        ((\<forall>p \<in> set ?names. re_search p ?s = None) \<longrightarrow>
           filter (\<lambda>r. pkey r = ''name'') (user_profile (db m')) =
           filter (\<lambda>r. pkey r = ''name'') (user_profile (db sample_manager)))"
    using bspec [OF typed mem_n] unfolding prod.case .
  have hyp_n: "1 < length ?names \<and> re_search (?names ! 1) ?s = Some ''ana'' \<and>
               (\<forall>j<1. re_search (?names ! j) ?s = None)"
    using n0 n1 by simp
  from mp [OF spec [OF spec [OF for_names [THEN conjunct1]]] hyp_n]
  have name_row: "\<exists>now. filter (\<lambda>r. pkey r = ''name'') (user_profile (db m')) =
                        [\<lparr>pkey = ''name'', pvalue = ''ana'', last_updated = now\<rparr>]" .
  have for_ages:
    "(\<forall>i v. i < length ?ages \<and> re_search (?ages ! i) ?s = Some v \<and>
               (\<forall>j<i. re_search (?ages ! j) ?s = None) \<longrightarrow>
               (\<exists>now. filter (\<lambda>r. pkey r = ''age'') (user_profile (db m')) =
                        [\<lparr>pkey = ''age'', pvalue = v, last_updated = now\<rparr>])) \<and>
        ((\<forall>p \<in> set ?ages. re_search p ?s = None) \<longrightarrow>
           filter (\<lambda>r. pkey r = ''age'') (user_profile (db m')) =
           filter (\<lambda>r. pkey r = ''age'') (user_profile (db sample_manager)))"
    using bspec [OF typed mem_a] unfolding prod.case .
  have hyp_a: "\<forall>p \<in> set ?ages. re_search p ?s = None"
    using a0 a1 by simp
  from mp [OF for_ages [THEN conjunct2] hyp_a]
  have age_rows: "filter (\<lambda>r. pkey r = ''age'') (user_profile (db m')) = []"
    by (simp only: no_age)
  from mp [OF spec [OF rest] other]
  have hobby_rows: "filter (\<lambda>r. pkey r = ''hobby'') (user_profile (db m')) = []"
    by (simp only: no_hobby)
  from keys have keys': "map pkey (user_profile (db m')) = [''name'', ''location'']"
    by (simp only: hits old) simp
  from rd have rd': "clock_reads m' = 2"
    by (simp only: hits reads) simp
  show ?thesis
  proof (intro exI [of _ m'] conjI)
    show "extract_profile_info sample_clock (PStr ''Me llamo Ana y vivo en Cusco'') sample_manager = Inr m'"
      by (rule e)
  qed (rule n0 n1 a0 a1 name_row age_rows hobby_rows keys' rd')+
qed

subsection \<open>Searching\<close>

lemma sorted_place_row:
  assumes total: "\<And>a b. \<not> first a b \<Longrightarrow> first b a"
    and trans: "\<And>a b c. first a b \<Longrightarrow> first b c \<Longrightarrow> first a c"
  shows "sorted_wrt first ys \<Longrightarrow> sorted_wrt first (place_row first x ys)"
proof (induction ys)
  case Nil
  show ?case by simp
next
  case (Cons y ys)
  show ?case
  proof (cases "first x y")
    case True
    with Cons.prems have "\<forall>z \<in> set (y # ys). first x z"
      by (auto intro: trans)
    with True Cons.prems show ?thesis by simp
  next
    case False
    then have "first y x" by (rule total)
    with False Cons show ?thesis
      by (auto simp add: set_place_row)
  qed
qed

lemma sorted_order_by:
  assumes total: "\<And>a b. \<not> first a b \<Longrightarrow> first b a"
    and trans: "\<And>a b c. first a b \<Longrightarrow> first b c \<Longrightarrow> first a c"
  shows "sorted_wrt first (order_by first xs)"
proof (induction xs)
  case Nil
  show ?case by (simp add: order_by_def)
next
  case (Cons x xs)
  have "order_by first (x # xs) = place_row first x (order_by first xs)"
    by (simp add: order_by_def)
  with Cons show ?case
    by (simp add: sorted_place_row [of first, OF total trans])
qed

lemma relevant_first_total: "\<not> relevant_first a b \<Longrightarrow> relevant_first b a"
  by (auto simp add: relevant_first_def)

lemma relevant_first_trans: "relevant_first a b \<Longrightarrow> relevant_first b c \<Longrightarrow> relevant_first a c"
  by (auto simp add: relevant_first_def)

lemma sorted_sql_limit: "sorted_wrt P xs \<Longrightarrow> sorted_wrt P (sql_limit n xs)"
  by (simp add: sql_limit_def sorted_wrt_take)

lemma search_sorted:
  "sorted_wrt (\<lambda>a b. d_importance b < d_importance a \<or>
                      (d_importance b = d_importance a \<and> d_timestamp b \<le> d_timestamp a))
     (search_conversations q L d)"
proof -
  have "sorted_wrt relevant_first
      (sql_limit L (order_by relevant_first (filter (search_where q) (conversations d))))"
    by (rule sorted_sql_limit, rule sorted_order_by)
      (erule relevant_first_total, erule relevant_first_trans, assumption)
  moreover have "relevant_first =
      (\<lambda>a b. importance_score b < importance_score a \<or>
              (importance_score b = importance_score a \<and> timestamp b \<le> timestamp a))"
    by (simp add: fun_eq_iff relevant_first_def)
  ultimately show ?thesis
    by (simp add: search_conversations_def sorted_wrt_map row_dict_def)
qed

lemma search_limit:
  "search_conversations q L d =
     (if L < 0 then search_conversations q (- 1) d
      else take (nat L) (search_conversations q (- 1) d))"
  by (simp add: search_conversations_def sql_limit_def take_map)

lemma search_unlimited_set:
  "set (search_conversations q (- 1) d) = row_dict ` {r \<in> set (conversations d). search_where q r}"
  by (auto simp add: search_conversations_def sql_limit_def set_order_by)

lemma startswith_iff: "startswith p s \<longleftrightarrow> (\<exists>ys. s = p @ ys)"
  by (induction p s rule: startswith.induct) auto

lemma contains_iff: "contains q s \<longleftrightarrow> (\<exists>xs ys. s = xs @ q @ ys)"
proof (induction s)
  case Nil
  show ?case by auto
next
  case (Cons c cs)
  show ?case
  proof
    assume "contains q (c # cs)"
    then consider "startswith q (c # cs)" | "contains q cs" by auto
    then show "\<exists>xs ys. c # cs = xs @ q @ ys"
    proof cases
      case 1
      then obtain ys where "c # cs = q @ ys" by (auto simp add: startswith_iff)
      then have "c # cs = [] @ q @ ys" by simp
      then show ?thesis by blast
    next
      case 2
      with Cons.IH obtain xs ys where "cs = xs @ q @ ys" by blast
      then have "c # cs = (c # xs) @ q @ ys" by simp
      then show ?thesis by blast
    qed
  next
    assume "\<exists>xs ys. c # cs = xs @ q @ ys"
    then obtain xs ys where e: "c # cs = xs @ q @ ys" by blast
    show "contains q (c # cs)"
    proof (cases xs)
      case Nil
      with e have "startswith q (c # cs)" by (auto simp add: startswith_iff)
      then show ?thesis by simp
    next
      case (Cons x xs')
      with e have "cs = xs' @ q @ ys" by simp
      with Cons.IH have "contains q cs" by blast
      then show ?thesis by simp
    qed
  qed
qed

lemma compare_percent_all: "pattern_compare ''%'' s"
  by (induction s) simp_all

lemma compare_percent_skip:
  "pattern_compare (CHR ''%'' # ps) s \<Longrightarrow> pattern_compare (CHR ''%'' # ps) (c # s)"
  by simp

lemma compare_percent_here: "pattern_compare ps s \<Longrightarrow> pattern_compare (CHR ''%'' # ps) s"
  by simp

lemma compare_percent_drop:
  "pattern_compare (CHR ''%'' # ps) s \<Longrightarrow> pattern_compare (CHR ''%'' # ps) (xs @ s)"
  by (induction xs) (simp_all del: pattern_compare.simps add: compare_percent_skip)

lemma like_char_refl: "like_char c c"
  by (simp add: like_char_def)

lemma compare_literal: "pattern_compare (q @ ''%'') (q @ ys)"
proof (induction q)
  case Nil
  show ?case using compare_percent_all by simp
next
  case (Cons c q)
  show ?case
  proof (cases "c = CHR ''%''")
    case True
    from Cons.IH have "pattern_compare (CHR ''%'' # q @ ''%'') (q @ ys)"
      by (rule compare_percent_here)
    then have "pattern_compare (CHR ''%'' # q @ ''%'') (CHR ''%'' # q @ ys)"
      by (rule compare_percent_skip)
    with True show ?thesis by simp
  next
    case False
    with Cons.IH show ?thesis by (simp add: like_char_refl)
  qed
qed

lemma compare_substring: "pattern_compare (CHR ''%'' # q @ ''%'') (xs @ q @ ys)"
  by (intro compare_percent_drop compare_percent_here compare_literal)

lemma c_string_no_nul: "CHR 0x00 \<notin> set s \<Longrightarrow> c_string s = s"
  by (auto simp add: c_string_def takeWhile_eq_all_conv)

lemma c_string_has_no_nul: "CHR 0x00 \<notin> set (c_string s)"
  by (auto simp add: c_string_def dest: set_takeWhileD)

lemma like_of_contains:
  assumes "contains q (c_string s)"
  shows "sql_like s (CHR ''%'' # q @ ''%'')"
proof -
  from assms obtain xs ys where t: "c_string s = xs @ q @ ys"
    by (auto simp add: contains_iff)
  have "CHR 0x00 \<notin> set (xs @ q @ ys)"
    unfolding t [symmetric] by (rule c_string_has_no_nul)
  then have "CHR 0x00 \<notin> set (CHR ''%'' # q @ ''%'')" by auto
  then have "c_string (CHR ''%'' # q @ ''%'') = CHR ''%'' # q @ ''%''"
    by (rule c_string_no_nul)
  then show ?thesis
    by (simp add: sql_like_def t compare_substring del: pattern_compare.simps)
qed

lemma compare_percent_iff:
  "pattern_compare (CHR ''%'' # ps) s \<longleftrightarrow> (\<exists>xs rest. s = xs @ rest \<and> pattern_compare ps rest)"
proof (induction s)
  case Nil
  show ?case by simp
next
  case (Cons c cs)
  have "pattern_compare (CHR ''%'' # ps) (c # cs) \<longleftrightarrow>
        pattern_compare ps (c # cs) \<or> pattern_compare (CHR ''%'' # ps) cs"
    by simp
  also have "\<dots> \<longleftrightarrow> pattern_compare ps (c # cs) \<or> (\<exists>xs rest. cs = xs @ rest \<and> pattern_compare ps rest)"
    by (simp only: Cons.IH)
  also have "\<dots> \<longleftrightarrow> (\<exists>xs rest. c # cs = xs @ rest \<and> pattern_compare ps rest)"
    by (auto simp add: Cons_eq_append_conv simp del: pattern_compare.simps)
  finally show ?case .
qed

lemma compare_plain_iff:
  "CHR ''%'' \<notin> set p \<Longrightarrow> CHR ''_'' \<notin> set p \<Longrightarrow>
   pattern_compare (p @ ''%'') s \<longleftrightarrow> (\<exists>mid ys. s = mid @ ys \<and> list_all2 like_char p mid)"
proof (induction p arbitrary: s)
  case Nil
  show ?case using compare_percent_all [of s] by simp
next
  case (Cons c p)
  from Cons.prems have c: "c \<noteq> CHR ''%''" "c \<noteq> CHR ''_''"
    and p: "CHR ''%'' \<notin> set p" "CHR ''_'' \<notin> set p" by auto
  show ?case
  proof (cases s)
    case Nil
    with c show ?thesis by simp
  next
    case (Cons d ds)
    have "pattern_compare ((c # p) @ ''%'') (d # ds) \<longleftrightarrow>
          like_char c d \<and> pattern_compare (p @ ''%'') ds"
      using c by simp
    also have "\<dots> \<longleftrightarrow> like_char c d \<and> (\<exists>mid ys. ds = mid @ ys \<and> list_all2 like_char p mid)"
      by (simp only: Cons.IH [OF p])
    also have "\<dots> \<longleftrightarrow> (\<exists>mid ys. d # ds = mid @ ys \<and> list_all2 like_char (c # p) mid)"
      by (auto simp add: list_all2_Cons1 Cons_eq_append_conv)
    finally show ?thesis using Cons by simp
  qed
qed

lemma like_plain_iff:
  assumes "CHR ''%'' \<notin> set q" "CHR ''_'' \<notin> set q" "CHR 0x00 \<notin> set q"
  shows "sql_like s (CHR ''%'' # q @ ''%'') \<longleftrightarrow>
         (\<exists>xs mid ys. c_string s = xs @ mid @ ys \<and> list_all2 like_char q mid)"
proof -
  from assms(3) have "CHR 0x00 \<notin> set (CHR ''%'' # q @ ''%'')" by auto
  then have "c_string (CHR ''%'' # q @ ''%'') = CHR ''%'' # q @ ''%''"
    by (rule c_string_no_nul)
  then have "sql_like s (CHR ''%'' # q @ ''%'') \<longleftrightarrow>
      pattern_compare (CHR ''%'' # q @ ''%'') (c_string s)"
    by (simp add: sql_like_def del: pattern_compare.simps)
  also have "\<dots> \<longleftrightarrow> (\<exists>xs rest. c_string s = xs @ rest \<and> pattern_compare (q @ ''%'') rest)"
    by (rule compare_percent_iff)
  also have "\<dots> \<longleftrightarrow> (\<exists>xs rest. c_string s = xs @ rest \<and>
      (\<exists>mid ys. rest = mid @ ys \<and> list_all2 like_char q mid))"
    by (simp only: compare_plain_iff [OF assms(1,2)])
  also have "\<dots> \<longleftrightarrow> (\<exists>xs mid ys. c_string s = xs @ mid @ ys \<and> list_all2 like_char q mid)"
    by blast
  finally show ?thesis .
qed

lemma mset_place_row: "mset (place_row f x ys) = add_mset x (mset ys)"
  by (induction ys) simp_all

lemma mset_order_by: "mset (order_by f xs) = mset xs"
  by (induction xs) (simp_all add: order_by_def mset_place_row)

lemma search_unlimited_mset:
  "mset (search_conversations q (- 1) d) =
     mset (map row_dict (filter (search_where q) (conversations d)))"
  by (simp add: search_conversations_def sql_limit_def mset_order_by)

text \<open>
  C5, as the code has it. LIKE reads a text, and the pattern, only up to its first U+0000.
  Without a limit (a negative limit, in SQLite) the search returns the rows of all sessions
  whose user message or assistant response matches the pattern \<open>%q%\<close>, each as often as it
  is stored; a limit \<open>L \<ge> 0\<close> keeps the first \<open>L\<close> of them, so at most \<open>L\<close> rows. The result is
  ordered by importance descending, then timestamp descending. A row is among the matches
  whenever \<open>q\<close> occurs as a substring of the part of one of its two texts that LIKE reads;
  and when \<open>q\<close> holds no \<open>%\<close>, \<open>_\<close> or U+0000, a text matches exactly when that part of it
  contains \<open>q\<close> up to the case of ASCII letters. The characters \<open>%\<close> and \<open>_\<close> inside \<open>q\<close> act as
  wildcards.
\<close>

theorem search_conversations_like:
  "mset (search_conversations q (- 1) d) =
     mset (map row_dict
       (filter (\<lambda>r. sql_like (user_message r) (CHR ''%'' # q @ ''%'') \<or>
                    sql_like (assistant_response r) (CHR ''%'' # q @ ''%''))
          (conversations d))) \<and>
   search_conversations q L d =
     (if L < 0 then search_conversations q (- 1) d
      else take (nat L) (search_conversations q (- 1) d)) \<and>
   (0 \<le> L \<longrightarrow> length (search_conversations q L d) \<le> nat L) \<and>
   sorted_wrt (\<lambda>a b. d_importance b < d_importance a \<or>
                      (d_importance b = d_importance a \<and> d_timestamp b \<le> d_timestamp a))
     (search_conversations q L d) \<and>
   (\<forall>s. contains q (c_string s) \<longrightarrow> sql_like s (CHR ''%'' # q @ ''%'')) \<and>
   (\<forall>r \<in> set (conversations d).
      contains q (c_string (user_message r)) \<or> contains q (c_string (assistant_response r)) \<longrightarrow>
      row_dict r \<in> set (search_conversations q (- 1) d)) \<and>
   (CHR ''%'' \<notin> set q \<and> CHR ''_'' \<notin> set q \<and> CHR 0x00 \<notin> set q \<longrightarrow>
      (\<forall>s. sql_like s (CHR ''%'' # q @ ''%'') \<longleftrightarrow>
           (\<exists>xs mid ys. c_string s = xs @ mid @ ys \<and> list_all2 like_char q mid)))"
proof (intro conjI allI impI ballI)
  have w: "search_where q =
      (\<lambda>r. sql_like (user_message r) (CHR ''%'' # q @ ''%'') \<or>
           sql_like (assistant_response r) (CHR ''%'' # q @ ''%''))"
    by (simp add: fun_eq_iff search_where_def)
  show "mset (search_conversations q (- 1) d) =
     mset (map row_dict
       (filter (\<lambda>r. sql_like (user_message r) (CHR ''%'' # q @ ''%'') \<or>
                    sql_like (assistant_response r) (CHR ''%'' # q @ ''%''))
          (conversations d)))"
    using search_unlimited_mset [of q d] by (simp only: w)
  show "search_conversations q L d =
     (if L < 0 then search_conversations q (- 1) d
      else take (nat L) (search_conversations q (- 1) d))"
    by (rule search_limit)
  show "length (search_conversations q L d) \<le> nat L" if "0 \<le> L"
    using that by (simp add: search_limit [of q L d])
  show "sorted_wrt (\<lambda>a b. d_importance b < d_importance a \<or>
                      (d_importance b = d_importance a \<and> d_timestamp b \<le> d_timestamp a))
     (search_conversations q L d)"
    by (rule search_sorted)
  show "sql_like s (CHR ''%'' # q @ ''%'')" if "contains q (c_string s)" for s
    using that by (rule like_of_contains)
  show "row_dict r \<in> set (search_conversations q (- 1) d)"
    if "r \<in> set (conversations d)"
      and "contains q (c_string (user_message r)) \<or> contains q (c_string (assistant_response r))"
    for r
  proof -
    from that(2) have "search_where q r"
      by (auto simp add: search_where_def intro: like_of_contains)
    with that(1) show ?thesis
      by (simp add: search_unlimited_set)
  qed
  show "sql_like s (CHR ''%'' # q @ ''%'') \<longleftrightarrow>
          (\<exists>xs mid ys. c_string s = xs @ mid @ ys \<and> list_all2 like_char q mid)"
    if "CHR ''%'' \<notin> set q \<and> CHR ''_'' \<notin> set q \<and> CHR 0x00 \<notin> set q" for s
    using that by (intro like_plain_iff) simp_all
qed

lemmas search_eval = search_conversations_def search_where_def sql_like_def c_string_def
  like_char_def code_point_def fold_ascii_def order_by_def relevant_first_def sql_limit_def
  row_dict_def sample_store_def

theorem search_conversations_like_witness:
  "(0::int) \<le> 1 \<and>
   length (search_conversations ''a'' 1 sample_store) \<le> nat 1 \<and>
   search_conversations ''a'' 1 sample_store = take (nat 1) (search_conversations ''a'' (- 1) sample_store) \<and>
   contains ''a'' (c_string ''Hola'') \<and>
   sql_like ''Hola'' (CHR ''%'' # ''a'' @ ''%'') \<and>
   \<lparr>conv_id = 1, timestamp = ''2023-12-31T09:00:00'', session_id = ''default'',
     user_message = ''Hola'', assistant_response = ''Buenos dias'', importance_score = 1\<rparr>
     \<in> set (conversations sample_store) \<and>
   \<lparr>d_timestamp = ''2023-12-31T09:00:00'', d_user = ''Hola'', d_assistant = ''Buenos dias'',
     d_importance = 1\<rparr> \<in> set (search_conversations ''a'' (- 1) sample_store) \<and>
   CHR ''%'' \<notin> set ''a'' \<and> CHR ''_'' \<notin> set ''a'' \<and> CHR 0x00 \<notin> set ''a'' \<and>
   (\<exists>xs mid ys. c_string ''Hola'' = xs @ mid @ ys \<and> list_all2 like_char ''a'' mid)"
proof -
  let ?r = "\<lparr>conv_id = 1, timestamp = ''2023-12-31T09:00:00'', session_id = ''default'',
     user_message = ''Hola'', assistant_response = ''Buenos dias'', importance_score = 1\<rparr>"
  note t = search_conversations_like [of "''a''" sample_store 1]
  have h1: "(0::int) \<le> 1" by simp
  have h2: "contains ''a'' (c_string ''Hola'')" by (simp add: c_string_def)
  have h3: "CHR ''%'' \<notin> set ''a'' \<and> CHR ''_'' \<notin> set ''a'' \<and> CHR 0x00 \<notin> set ''a''" by simp
  have h4: "?r \<in> set (conversations sample_store)" by (simp add: sample_store_def)
  have h5: "contains ''a'' (c_string (user_message ?r)) \<or>
            contains ''a'' (c_string (assistant_response ?r))"
    by (simp add: c_string_def)
  from t have lim: "search_conversations ''a'' 1 sample_store =
      (if (1::int) < 0 then search_conversations ''a'' (- 1) sample_store
       else take (nat 1) (search_conversations ''a'' (- 1) sample_store))"
    by (elim conjE)
  from t h1 have len: "length (search_conversations ''a'' 1 sample_store) \<le> nat 1"
    by (elim conjE) (erule mp)
  from t have "\<forall>s. contains ''a'' (c_string s) \<longrightarrow> sql_like s (CHR ''%'' # ''a'' @ ''%'')"
    by (elim conjE)
  from mp [OF spec [OF this] h2] have lk: "sql_like ''Hola'' (CHR ''%'' # ''a'' @ ''%'')" .
  from t have "\<forall>r \<in> set (conversations sample_store).
      contains ''a'' (c_string (user_message r)) \<or> contains ''a'' (c_string (assistant_response r)) \<longrightarrow>
      row_dict r \<in> set (search_conversations ''a'' (- 1) sample_store)"
    by (elim conjE)
  from mp [OF bspec [OF this h4] h5]
  have mem: "\<lparr>d_timestamp = ''2023-12-31T09:00:00'', d_user = ''Hola'', d_assistant = ''Buenos dias'',
     d_importance = 1\<rparr> \<in> set (search_conversations ''a'' (- 1) sample_store)"
    by (simp add: row_dict_def)
  from t have "CHR ''%'' \<notin> set ''a'' \<and> CHR ''_'' \<notin> set ''a'' \<and> CHR 0x00 \<notin> set ''a'' \<longrightarrow>
      (\<forall>s. sql_like s (CHR ''%'' # ''a'' @ ''%'') \<longleftrightarrow>
           (\<exists>xs mid ys. c_string s = xs @ mid @ ys \<and> list_all2 like_char ''a'' mid))"
    by (elim conjE)
  from mp [OF this h3] lk
  have ex: "\<exists>xs mid ys. c_string ''Hola'' = xs @ mid @ ys \<and> list_all2 like_char ''a'' mid"
    by blast
  from lim have lim': "search_conversations ''a'' 1 sample_store =
      take (nat 1) (search_conversations ''a'' (- 1) sample_store)" by simp
  show ?thesis
  proof (intro conjI)
    show "(0::int) \<le> 1" by (rule h1)
    show "length (search_conversations ''a'' 1 sample_store) \<le> nat 1" by (rule len)
    show "search_conversations ''a'' 1 sample_store =
      take (nat 1) (search_conversations ''a'' (- 1) sample_store)" by (rule lim')
    show "contains ''a'' (c_string ''Hola'')" by (rule h2)
    show "sql_like ''Hola'' (CHR ''%'' # ''a'' @ ''%'')" by (rule lk)
    show "?r \<in> set (conversations sample_store)" by (rule h4)
    show "\<lparr>d_timestamp = ''2023-12-31T09:00:00'', d_user = ''Hola'', d_assistant = ''Buenos dias'',
     d_importance = 1\<rparr> \<in> set (search_conversations ''a'' (- 1) sample_store)" by (rule mem)
    show "\<exists>xs mid ys. c_string ''Hola'' = xs @ mid @ ys \<and> list_all2 like_char ''a'' mid" by (rule ex)
  qed simp_all
qed

text \<open>
  C5 as stated fails on four counts. The query \<open>_\<close> returns both rows of the sample store
  although no text holds an underscore; the query \<open>HOLA\<close> returns the row whose text is
  \<open>Hola\<close>; with the limit \<open>-1\<close> the query \<open>a\<close> returns two rows; and a row whose user message
  holds \<open>cd\<close> after a U+0000 is not returned for the query \<open>cd\<close>.
\<close>

theorem search_conversations_counterexample:
  "search_conversations ''_'' 5 sample_store =
     [\<lparr>d_timestamp = ''2023-12-31T09:05:00'', d_user = ''a'', d_assistant = ''b'', d_importance = 2\<rparr>,
      \<lparr>d_timestamp = ''2023-12-31T09:00:00'', d_user = ''Hola'', d_assistant = ''Buenos dias'',
        d_importance = 1\<rparr>] \<and>
   \<not> contains ''_'' ''a'' \<and> \<not> contains ''_'' ''b'' \<and>
   \<not> contains ''_'' ''Hola'' \<and> \<not> contains ''_'' ''Buenos dias'' \<and>
   search_conversations ''HOLA'' 5 sample_store =
     [\<lparr>d_timestamp = ''2023-12-31T09:00:00'', d_user = ''Hola'', d_assistant = ''Buenos dias'',
        d_importance = 1\<rparr>] \<and>
   \<not> contains ''HOLA'' ''Hola'' \<and> \<not> contains ''HOLA'' ''Buenos dias'' \<and>
   length (search_conversations ''a'' (- 1) sample_store) = 2 \<and>
   \<not> int (length (search_conversations ''a'' (- 1) sample_store)) \<le> - 1 \<and>
   contains ''cd'' (''ab'' @ [CHR 0x00] @ ''cd'') \<and>
   search_conversations ''cd'' 5
     \<lparr>conversations =
        [\<lparr>conv_id = 1, timestamp = ''2023-12-31T09:00:00'', session_id = ''default'',
          user_message = ''ab'' @ [CHR 0x00] @ ''cd'', assistant_response = ''x'',
          importance_score = 1\<rparr>],
      conv_seq = 1, memory_summaries = [], user_profile = []\<rparr> = []"
proof -
  have a: "search_conversations ''_'' 5 sample_store =
     [\<lparr>d_timestamp = ''2023-12-31T09:05:00'', d_user = ''a'', d_assistant = ''b'', d_importance = 2\<rparr>,
      \<lparr>d_timestamp = ''2023-12-31T09:00:00'', d_user = ''Hola'', d_assistant = ''Buenos dias'',
        d_importance = 1\<rparr>]"
    by (simp add: search_eval)
  have b: "search_conversations ''HOLA'' 5 sample_store =
     [\<lparr>d_timestamp = ''2023-12-31T09:00:00'', d_user = ''Hola'', d_assistant = ''Buenos dias'',
        d_importance = 1\<rparr>]"
    by (simp add: search_eval)
  have c: "length (search_conversations ''a'' (- 1) sample_store) = 2"
    by (simp add: search_eval)
  have d: "\<not> contains ''_'' ''a'' \<and> \<not> contains ''_'' ''b'' \<and>
   \<not> contains ''_'' ''Hola'' \<and> \<not> contains ''_'' ''Buenos dias'' \<and>
   \<not> contains ''HOLA'' ''Hola'' \<and> \<not> contains ''HOLA'' ''Buenos dias'' \<and>
   contains ''cd'' (''ab'' @ [CHR 0x00] @ ''cd'')"
    by simp
  have e: "search_conversations ''cd'' 5
     \<lparr>conversations =
        [\<lparr>conv_id = 1, timestamp = ''2023-12-31T09:00:00'', session_id = ''default'',
          user_message = ''ab'' @ [CHR 0x00] @ ''cd'', assistant_response = ''x'',
          importance_score = 1\<rparr>],
      conv_seq = 1, memory_summaries = [], user_profile = []\<rparr> = []"
    by (simp add: search_eval)
  from a b c d e show ?thesis by simp
qed

end
